theory Spec2Isabelle
  imports Main "HOL-Library.Multiset"
begin

section \<open>Python strings\<close>

text \<open>
  A Python \<open>str\<close> is a sequence of Unicode code points; it is modelled as the list of
  its code points, so that every separator the string methods look at (also the ones
  beyond one byte) is a single element. \<open>ascii\<close> writes a literal.
\<close>

type_synonym pystr = "nat list"

definition ascii :: "string \<Rightarrow> pystr" where
  "ascii s = map of_char s"

definition comma :: nat where
  "comma = 44"

definition newline :: nat where
  "newline = 10"

definition slash :: nat where
  "slash = 47"

definition dot :: nat where
  "dot = 46"

definition hyphen :: nat where
  "hyphen = 45"

text \<open>
  The line boundaries of \<open>str.splitlines\<close>: LF, VT, FF, CR, FS, GS, RS, NEL, LINE
  SEPARATOR and PARAGRAPH SEPARATOR; CR followed by LF is one boundary.
\<close>

definition is_linebreak :: "nat \<Rightarrow> bool" where
  "is_linebreak c = (c \<in> set [10, 11, 12, 13, 28, 29, 30, 133, 8232, 8233])"

text \<open>
  \<open>s.splitlines()\<close>, with the line read so far as first argument. A boundary at the
  very end of the string opens no further line.
\<close>

fun splitlines_aux :: "pystr \<Rightarrow> pystr \<Rightarrow> pystr list" where
  "splitlines_aux cur [] = (if cur = [] then [] else [cur])"
| "splitlines_aux cur [c] = (if is_linebreak c then [cur] else [cur @ [c]])"
| "splitlines_aux cur (c # d # cs) =
     (if c = 13 \<and> d = 10 then cur # splitlines_aux [] cs
      else if is_linebreak c then cur # splitlines_aux [] (d # cs)
      else splitlines_aux (cur @ [c]) (d # cs))"

definition splitlines :: "pystr \<Rightarrow> pystr list" where
  "splitlines s = splitlines_aux [] s"

text \<open>\<open>s.split(sep)\<close> for a separator of one character: never the empty list.\<close>

fun py_split :: "nat \<Rightarrow> pystr \<Rightarrow> pystr list" where
  "py_split sep [] = [[]]"
| "py_split sep (c # cs) =
     (if c = sep then [] # py_split sep cs
      else (case py_split sep cs of
              [] \<Rightarrow> [[c]]
            | w # ws \<Rightarrow> (c # w) # ws))"

text \<open>\<open>sep.join(xs)\<close>.\<close>

fun py_join :: "pystr \<Rightarrow> pystr list \<Rightarrow> pystr" where
  "py_join sep [] = []"
| "py_join sep [x] = x"
| "py_join sep (x # y # ys) = x @ sep @ py_join sep (y # ys)"

text \<open>\<open>str(n)\<close> for an integer: decimal digits, with a sign when negative.\<close>

function py_str_nat :: "nat \<Rightarrow> pystr" where
  "py_str_nat n = (if n < 10 then [48 + n] else py_str_nat (n div 10) @ [48 + n mod 10])"
  by pat_completeness auto
termination
  by (relation "measure id") auto

declare py_str_nat.simps [simp del]

definition py_str_int :: "int \<Rightarrow> pystr" where
  "py_str_int i = (if i < 0 then hyphen # py_str_nat (nat (- i)) else py_str_nat (nat i))"

section \<open>Paths and files\<close>

text \<open>
  \<open>os.path.join\<close> and \<open>os.path.basename\<close> of posixpath. The file system maps the
  path of a regular file to its text; a path that is not in the domain does not exist
  (\<open>os.path.exists\<close>). Directories, encodings and input/output failures are not part
  of the model.
\<close>

definition path_join :: "pystr \<Rightarrow> pystr \<Rightarrow> pystr" where
  "path_join a b =
     (if b \<noteq> [] \<and> hd b = slash then b
      else if a = [] \<or> last a = slash then a @ b
      else a @ [slash] @ b)"

definition basename :: "pystr \<Rightarrow> pystr" where
  "basename p = rev (takeWhile (\<lambda>c. c \<noteq> slash) (rev p))"

type_synonym filesystem = "pystr \<rightharpoonup> pystr"

section \<open>Exceptions\<close>

datatype error =
    RuntimeError string
  | FileNotFoundError string
  | TypeError
  | ValueError
  | KeyError string

section \<open>Files of the docking stage (pyCADD.Dock.common)\<close>

text \<open>
  The classes \<open>GridFile\<close>, \<open>LigandFile\<close> and \<open>DockResultFile\<close>, and the structures
  a ligand file holds, are imported by ensemble.py from modules that are not part of the
  sources at hand; the records below have the attributes ensemble.py reads and nothing
  else. The attribute \<open>pdbid\<close> of a dock result is named \<open>result_pdbid\<close> here, field
  names being global. A property of a structure is a string, an integer or a boolean.
\<close>

datatype pyval = VStr pystr | VInt int | VBool bool

record structure_obj =
  property :: "pystr \<rightharpoonup> pyval"

record grid_file =
  pdbid :: pystr
  ligand :: pystr
  internal_ligand :: pystr

record ligand_file =
  ligand_name :: pystr
  file_dir :: pystr
  file_name :: pystr
  structures :: "structure_obj list"

record dock_result_file =
  result_pdbid :: pystr
  internal_ligand_name :: pystr
  docking_ligand_name :: pystr

type_synonym failed_key = "pystr \<times> pystr \<times> pystr"

type_synonym mapping_item = "grid_file \<times> ligand_file"

section \<open>The mapping builder: \<open>_Console._creat_mapping\<close>\<close>

text \<open>
  The test of ensemble.py line 143: the tuple
  \<open>(grid_file.pdbid, grid_file.ligand, ligand_file.ligand_name)\<close>, looked up in the
  list with Python's \<open>in\<close>, which compares tuples of strings component by component.
\<close>

definition mapping_key :: "grid_file \<Rightarrow> ligand_file \<Rightarrow> failed_key" where
  "mapping_key g l = (pdbid g, ligand g, ligand_name l)"

text \<open>The inner loop over the ligand files, appending to \<open>mapping_results\<close>.\<close>

fun mapping_inner ::
  "grid_file \<Rightarrow> ligand_file list \<Rightarrow> failed_key list \<Rightarrow> mapping_item list \<Rightarrow> mapping_item list"
where
  "mapping_inner g [] failed acc = acc"
| "mapping_inner g (l # ls) failed acc =
     (if mapping_key g l \<in> set failed then mapping_inner g ls failed acc
      else mapping_inner g ls failed (acc @ [(g, l)]))"

text \<open>The outer loop over the grid files.\<close>

fun mapping_outer ::
  "grid_file list \<Rightarrow> ligand_file list \<Rightarrow> failed_key list \<Rightarrow> mapping_item list \<Rightarrow> mapping_item list"
where
  "mapping_outer [] ls failed acc = acc"
| "mapping_outer (g # gs) ls failed acc = mapping_outer gs ls failed (mapping_inner g ls failed acc)"

text \<open>
  \<open>_creat_mapping(grid_file_list, ligand_file_list, failed_list=None)\<close>: a missing
  \<open>failed_list\<close> is replaced by the empty list before the loops run.
\<close>

definition static_creat_mapping ::
  "grid_file list \<Rightarrow> ligand_file list \<Rightarrow> failed_key list option \<Rightarrow> mapping_item list"
where
  "static_creat_mapping grid_file_list ligand_file_list failed_list =
     (let failed = (case failed_list of None \<Rightarrow> [] | Some fl \<Rightarrow> fl)
      in mapping_outer grid_file_list ligand_file_list failed [])"

text \<open>Whether a pair of the cross product is excluded by a list of failures.\<close>

definition excluded :: "failed_key list \<Rightarrow> mapping_item \<Rightarrow> bool" where
  "excluded failed p = (mapping_key (fst p) (snd p) \<in> set failed)"

section \<open>The failure ledger: \<open>_Console._get_failed_list\<close>\<close>

record minimized_file =
  minimized_path :: pystr

text \<open>
  The attributes of \<open>_Console\<close> that the stages below read or assign; the lists are
  \<open>None\<close> until the stage that produces them has run.
\<close>

record console =
  pairs_list :: "(pystr \<times> pystr) list"
  minimized_file_list :: "minimized_file list option"
  grid_file_list :: "grid_file list option"
  ligand_path_list :: "pystr list option"
  ligand_file_list :: "ligand_file list option"
  mapping :: "mapping_item list option"
  dock_file_list :: "dock_result_file list option"
  docking_failed_list :: "pystr list option"
  base_dock_save_dir :: pystr
  result_save_dir :: pystr

text \<open>\<open>os.path.join(self.result_save_dir, f'docking_failed_{precision}.csv')\<close>\<close>

definition failed_list_file_path :: "console \<Rightarrow> pystr \<Rightarrow> pystr" where
  "failed_list_file_path self precision =
     path_join (result_save_dir self) (ascii ''docking_failed_'' @ precision @ ascii ''.csv'')"

text \<open>
  The comprehension of line 119 unpacks every split line into three names: a line with
  another number of fields raises ValueError.
\<close>

fun unpack_failed :: "pystr list list \<Rightarrow> error + failed_key list" where
  "unpack_failed [] = Inr []"
| "unpack_failed (t # ts) =
     (case t of
        [pdbid', internal_lig, docking_lig] \<Rightarrow>
          (case unpack_failed ts of
             Inl e \<Rightarrow> Inl e
           | Inr rest \<Rightarrow> Inr ((pdbid', internal_lig, docking_lig) # rest))
      | _ \<Rightarrow> Inl ValueError)"

definition get_failed_list :: "console \<Rightarrow> filesystem \<Rightarrow> pystr \<Rightarrow> error + failed_key list option" where
  "get_failed_list self fs precision =
     (case fs (failed_list_file_path self precision) of
        Some content \<Rightarrow>
          (let lines = splitlines content;
               failed_list = map (py_split comma) lines
           in case unpack_failed failed_list of
                Inl e \<Rightarrow> Inl e
              | Inr keys \<Rightarrow> Inr (Some keys))
      | None \<Rightarrow> Inr None)"

section \<open>The stages of the console\<close>

text \<open>
  A stage returns what it raises or returns, together with the console and the file
  system it leaves behind. The parallel runner that ensemble.py imports
  (\<open>_multiprocssing_run\<close>, called with the docking, grid and extraction routines of
  modules outside these sources) is a parameter of each stage: from the file system and
  the submitted items it gives the results of the items that succeeded and the file
  system after the batch. The constructors \<open>LigandFile\<close> and \<open>DockResultFile\<close> are
  parameters too.
\<close>

definition multi_grid_generate ::
  "(filesystem \<Rightarrow> minimized_file list \<Rightarrow> grid_file list \<times> filesystem) \<Rightarrow>
   console \<Rightarrow> filesystem \<Rightarrow> (error + grid_file list) \<times> console \<times> filesystem"
where
  "multi_grid_generate run_grid self fs =
     (case minimized_file_list self of
        None \<Rightarrow> (Inl (FileNotFoundError ''No minimized file found. Please run minimize first.''), self, fs)
      | Some pairs \<Rightarrow>
          (let (grids, fs') = run_grid fs pairs
           in (Inr grids, self\<lparr>grid_file_list := Some grids\<rparr>, fs')))"

definition creat_mapping ::
  "(pystr \<Rightarrow> ligand_file) \<Rightarrow> pystr \<Rightarrow> console \<Rightarrow> filesystem \<Rightarrow> (error + unit) \<times> console \<times> filesystem"
where
  "creat_mapping LigandFile precision self fs =
     (case ligand_path_list self of
        None \<Rightarrow> (Inl (RuntimeError ''Please run ligand_split first.''), self, fs)
      | Some paths \<Rightarrow>
          (case grid_file_list self of
             None \<Rightarrow> (Inl (RuntimeError ''Please run grid_generate first.''), self, fs)
           | Some grids \<Rightarrow>
               (let ligands = map LigandFile paths;
                    self1 = self\<lparr>ligand_file_list := Some ligands\<rparr>
                in case get_failed_list self1 fs precision of
                     Inl e \<Rightarrow> (Inl e, self1, fs)
                   | Inr failed \<Rightarrow>
                       (Inr (), self1\<lparr>mapping := Some (static_creat_mapping grids ligands failed)\<rparr>, fs))))"

text \<open>The f-string of three attributes separated by commas (lines 315 and 316).\<close>

definition key_line :: "pystr \<Rightarrow> pystr \<Rightarrow> pystr \<Rightarrow> pystr" where
  "key_line a b c = a @ [comma] @ b @ [comma] @ c"

definition total_result :: "mapping_item list \<Rightarrow> pystr list" where
  "total_result m =
     map (\<lambda>mapping_item. key_line (pdbid (fst mapping_item)) (internal_ligand (fst mapping_item))
            (ligand_name (snd mapping_item))) m"

definition success_result :: "dock_result_file list \<Rightarrow> pystr list" where
  "success_result ds =
     map (\<lambda>dock_result_item. key_line (result_pdbid dock_result_item)
            (internal_ligand_name dock_result_item) (docking_ligand_name dock_result_item)) ds"

text \<open>
  \<open>list(set(xs) - set(ys))\<close>: the elements of \<open>xs\<close> that are not in \<open>ys\<close>, each once,
  in the iteration order of the set. Python leaves that order open, so it is the
  parameter \<open>order\<close>, a rearrangement of the list it is given.
\<close>

definition set_difference_list ::
  "(pystr list \<Rightarrow> pystr list) \<Rightarrow> pystr list \<Rightarrow> pystr list \<Rightarrow> pystr list"
where
  "set_difference_list order xs ys = order (remdups (filter (\<lambda>x. x \<notin> set ys) xs))"

definition rearranges :: "('a list \<Rightarrow> 'a list) \<Rightarrow> bool" where
  "rearranges order = (\<forall>xs. mset (order xs) = mset xs)"

text \<open>
  \<open>multi_dock\<close>. The debug message of line 304 takes the lengths of \<open>grid_file_list\<close>
  and \<open>ligand_file_list\<close> (its f-string is evaluated whatever the log level), and
  \<open>len(None)\<close> raises TypeError; the test of \<open>self.mapping\<close> comes after it.
\<close>

definition multi_dock ::
  "(filesystem \<Rightarrow> mapping_item list \<Rightarrow> dock_result_file list \<times> filesystem) \<Rightarrow>
   (pystr list \<Rightarrow> pystr list) \<Rightarrow> pystr \<Rightarrow> console \<Rightarrow> filesystem \<Rightarrow>
   (error + unit) \<times> console \<times> filesystem"
where
  "multi_dock run_dock order precision self fs =
     (case grid_file_list self of
        None \<Rightarrow> (Inl TypeError, self, fs)
      | Some grids \<Rightarrow>
     (case ligand_file_list self of
        None \<Rightarrow> (Inl TypeError, self, fs)
      | Some ligands \<Rightarrow>
     (case mapping self of
        None \<Rightarrow> (Inl (RuntimeError ''Please run creat_mapping first.''), self, fs)
      | Some m \<Rightarrow>
          (let (docked, fs1) = run_dock fs m;
               failed = set_difference_list order (total_result m) (success_result docked);
               self' = self\<lparr>dock_file_list := Some docked, docking_failed_list := Some failed\<rparr>
           in if length failed \<noteq> 0
              then (Inr (), self',
                    fs1(failed_list_file_path self precision \<mapsto> py_join [newline] failed))
              else (Inr (), self', fs1)))))"

text \<open>
  \<open>multi_extract_data\<close>, when no dock result is in memory, rebuilds the paths of the
  dock results from the pairs and the ligand names, looking every triple up in what
  \<open>_get_failed_list\<close> returned; \<open>x in None\<close> raises TypeError.
\<close>

definition dockfile_path :: "pystr \<Rightarrow> pystr \<Rightarrow> pystr \<Rightarrow> pystr \<Rightarrow> pystr \<Rightarrow> pystr" where
  "dockfile_path base pdbid' ligid name precision =
     path_join (path_join base pdbid')
       (pdbid' @ ascii ''_'' @ ligid @ ascii ''_glide-dock_'' @ name @ ascii ''_'' @ precision
          @ ascii ''.maegz'')"

fun extract_inner ::
  "pystr \<Rightarrow> pystr \<Rightarrow> failed_key list option \<Rightarrow> pystr \<Rightarrow> pystr \<Rightarrow> pystr list \<Rightarrow> pystr list \<Rightarrow>
   error + pystr list"
where
  "extract_inner base precision failed pdbid' ligid [] acc = Inr acc"
| "extract_inner base precision failed pdbid' ligid (name # names) acc =
     (case failed of
        None \<Rightarrow> Inl TypeError
      | Some fl \<Rightarrow>
          if (pdbid', ligid, name) \<in> set fl
          then extract_inner base precision failed pdbid' ligid names acc
          else extract_inner base precision failed pdbid' ligid names
                 (acc @ [dockfile_path base pdbid' ligid name precision]))"

fun extract_outer ::
  "pystr \<Rightarrow> pystr \<Rightarrow> failed_key list option \<Rightarrow> (pystr \<times> pystr) list \<Rightarrow> pystr list \<Rightarrow> pystr list \<Rightarrow>
   error + pystr list"
where
  "extract_outer base precision failed [] names acc = Inr acc"
| "extract_outer base precision failed ((pdbid', ligid) # pairs) names acc =
     (case extract_inner base precision failed pdbid' ligid names acc of
        Inl e \<Rightarrow> Inl e
      | Inr acc' \<Rightarrow> extract_outer base precision failed pairs names acc')"

definition multi_extract_data ::
  "(pystr \<Rightarrow> dock_result_file) \<Rightarrow> (filesystem \<Rightarrow> dock_result_file list \<Rightarrow> 'd list) \<Rightarrow>
   pystr \<Rightarrow> console \<Rightarrow> filesystem \<Rightarrow> (error + 'd list) \<times> console"
where
  "multi_extract_data DockResultFile run_extract precision self fs =
     (case dock_file_list self of
        Some docked \<Rightarrow> (Inr (run_extract fs docked), self)
      | None \<Rightarrow>
          (case ligand_path_list self of
             None \<Rightarrow> (Inl (RuntimeError ''Please run ligand_split first.''), self)
           | Some paths \<Rightarrow>
               (let ligand_name_list = map (\<lambda>ligand_path. hd (py_split dot (basename ligand_path))) paths
                in case get_failed_list self fs precision of
                     Inl e \<Rightarrow> (Inl e, self)
                   | Inr failed \<Rightarrow>
                       (case extract_outer (base_dock_save_dir self) precision failed
                               (pairs_list self) ligand_name_list [] of
                          Inl e \<Rightarrow> (Inl e, self)
                        | Inr dockfile_path_list \<Rightarrow>
                            (let docked = map DockResultFile dockfile_path_list
                             in (Inr (run_extract fs docked),
                                 self\<lparr>dock_file_list := Some docked\<rparr>))))))"

text \<open>
  \<open>_Console.__init__\<close>: every list that a stage produces starts as \<open>None\<close>, and the
  directories are children of the working directory.
\<close>

definition init :: "(pystr \<times> pystr) list \<Rightarrow> pystr \<Rightarrow> console" where
  "init pairs cwd =
     \<lparr>pairs_list = pairs, minimized_file_list = None, grid_file_list = None,
      ligand_path_list = None, ligand_file_list = None, mapping = None,
      dock_file_list = None, docking_failed_list = None,
      base_dock_save_dir = path_join cwd (ascii ''dockfiles''),
      result_save_dir = path_join cwd (ascii ''result'')\<rparr>"







section \<open>The default number of workers\<close>

text \<open>\<open>NUM_PARALLEL = multiprocessing.cpu_count() // 4 * 3\<close>, as a function of the count.\<close>

definition NUM_PARALLEL :: "int \<Rightarrow> int" where
  "NUM_PARALLEL cpu_count = cpu_count div 4 * 3"

section \<open>Lines and fields\<close>

lemma not_linebreak_13: "\<not> is_linebreak c \<Longrightarrow> c \<noteq> 13"
  by (auto simp: is_linebreak_def)

lemma is_linebreak_newline: "is_linebreak newline" "newline \<noteq> 13"
  by (simp_all add: is_linebreak_def newline_def)

lemma splitlines_aux_plain_step:
  "\<not> is_linebreak c \<Longrightarrow> ys \<noteq> [] \<Longrightarrow> splitlines_aux cur (c # ys) = splitlines_aux (cur @ [c]) ys"
  by (cases ys) (auto dest: not_linebreak_13)

lemma splitlines_aux_newline:
  "splitlines_aux cur (newline # ys) = cur # splitlines_aux [] ys"
  by (cases ys) (simp_all add: is_linebreak_newline)

lemma splitlines_aux_line:
  "\<forall>c \<in> set x. \<not> is_linebreak c \<Longrightarrow>
     splitlines_aux cur (x @ newline # r) = (cur @ x) # splitlines_aux [] r"
proof (induction x arbitrary: cur)
  case Nil
  show ?case by (simp add: splitlines_aux_newline)
next
  case (Cons c x)
  have "splitlines_aux cur (c # (x @ newline # r)) = splitlines_aux (cur @ [c]) (x @ newline # r)"
    using Cons.prems by (intro splitlines_aux_plain_step) simp_all
  then have "splitlines_aux cur ((c # x) @ newline # r) = splitlines_aux (cur @ [c]) (x @ newline # r)"
    by simp
  also have "\<dots> = ((cur @ [c]) @ x) # splitlines_aux [] r"
    using Cons.prems by (intro Cons.IH) simp
  finally show ?case by simp
qed

lemma splitlines_aux_last:
  "\<forall>c \<in> set x. \<not> is_linebreak c \<Longrightarrow> cur @ x \<noteq> [] \<Longrightarrow> splitlines_aux cur x = [cur @ x]"
proof (induction x arbitrary: cur)
  case Nil
  then show ?case by simp
next
  case (Cons c x)
  show ?case
  proof (cases x)
    case Nil
    with Cons.prems show ?thesis by simp
  next
    case (Cons d ds)
    have "splitlines_aux cur (c # x) = splitlines_aux (cur @ [c]) x"
      using Cons.prems Cons by (intro splitlines_aux_plain_step) simp_all
    also have "\<dots> = [(cur @ [c]) @ x]"
      using Cons.prems by (intro Cons.IH) simp_all
    finally show ?thesis by simp
  qed
qed

text \<open>Lines without a boundary in them, none of them empty, survive join and split.\<close>

lemma splitlines_join:
  "\<forall>x \<in> set xs. x \<noteq> [] \<and> (\<forall>c \<in> set x. \<not> is_linebreak c) \<Longrightarrow>
     splitlines (py_join [newline] xs) = xs"
proof (induction "[newline]" xs rule: py_join.induct)
  case 1
  show ?case by (simp add: splitlines_def)
next
  case (2 x)
  then show ?case by (simp add: splitlines_def splitlines_aux_last)
next
  case (3 x y ys)
  then have "splitlines_aux [] (py_join [newline] (y # ys)) = y # ys"
    by (simp add: splitlines_def)
  with 3 show ?case
    by (simp add: splitlines_def splitlines_aux_line)
qed




lemma py_split_nonempty: "py_split sep s \<noteq> []"
  by (induction s) (auto split: list.splits)

section \<open>Properties of the mapping builder\<close>

lemma mapping_inner_filter:
  "mapping_inner g ls failed acc =
     acc @ filter (\<lambda>p. \<not> excluded failed p) (map (Pair g) ls)"
  by (induction ls arbitrary: acc) (simp_all add: excluded_def)

lemma mapping_outer_filter:
  "mapping_outer gs ls failed acc =
     acc @ filter (\<lambda>p. \<not> excluded failed p) (List.product gs ls)"
  by (induction gs arbitrary: acc) (simp_all add: mapping_inner_filter)

lemma static_creat_mapping_filter:
  "static_creat_mapping gs ls (Some failed) =
     filter (\<lambda>p. \<not> excluded failed p) (List.product gs ls)"
  by (simp add: static_creat_mapping_def mapping_outer_filter)

lemma static_creat_mapping_None:
  "static_creat_mapping gs ls None = static_creat_mapping gs ls (Some [])"
  by (simp add: static_creat_mapping_def)

lemma static_creat_mapping_empty:
  "static_creat_mapping gs ls (Some []) = List.product gs ls"
  by (simp add: static_creat_mapping_filter excluded_def)

lemma product_nth:
  "i < length gs \<Longrightarrow> j < length ls \<Longrightarrow>
     List.product gs ls ! (i * length ls + j) = (gs ! i, ls ! j)"
proof (induction gs arbitrary: i)
  case Nil
  then show ?case by simp
next
  case (Cons g gs)
  show ?case
  proof (cases i)
    case 0
    with Cons.prems show ?thesis by (simp add: nth_append)
  next
    case (Suc k)
    with Cons.prems have k: "k < length gs" by simp
    have "List.product (g # gs) ls ! (i * length ls + j) =
            List.product gs ls ! (k * length ls + j)"
      using Suc by (simp add: nth_append)
    with Cons.IH [OF k Cons.prems(2)] Suc show ?thesis by simp
  qed
qed

text \<open>
  C1. With an empty exclusion list (or none at all) the mapping of m grid files and n
  ligand files is the whole cross product in nested iteration order: it has m * n
  entries, the entry at position i * n + j is (grid i, ligand j), and it is the empty
  list as soon as one of the two lists is empty. The function is total: no input makes
  it raise.
\<close>

theorem creat_mapping_full_cross_product:
  "static_creat_mapping gs ls (Some []) = concat (map (\<lambda>g. map (Pair g) ls) gs)
   \<and> static_creat_mapping gs ls None = static_creat_mapping gs ls (Some [])
   \<and> length (static_creat_mapping gs ls (Some [])) = length gs * length ls
   \<and> (\<forall>i j. i < length gs \<and> j < length ls \<longrightarrow>
         static_creat_mapping gs ls (Some []) ! (i * length ls + j) = (gs ! i, ls ! j))
   \<and> (gs = [] \<or> ls = [] \<longrightarrow> static_creat_mapping gs ls (Some []) = [])"
proof -
  have eq: "static_creat_mapping gs ls (Some []) = List.product gs ls"
    by (rule static_creat_mapping_empty)
  have c: "List.product gs ls = concat (map (\<lambda>g. map (Pair g) ls) gs)"
    by (induction gs) simp_all
  have e: "gs = [] \<or> ls = [] \<longrightarrow> List.product gs ls = []"
    by (induction gs) auto
  have n: "\<forall>i j. i < length gs \<and> j < length ls \<longrightarrow>
         List.product gs ls ! (i * length ls + j) = (gs ! i, ls ! j)"
    by (simp add: product_nth)
  have l: "length (List.product gs ls) = length gs * length ls"
    by simp
  have nn: "static_creat_mapping gs ls None = List.product gs ls"
    by (simp add: static_creat_mapping_None eq)
  show ?thesis
    unfolding nn eq by (intro conjI c refl n l e)
qed

subsection \<open>The scenario of two grids and three ligands\<close>

definition grid_R1 :: grid_file where
  "grid_R1 = \<lparr>pdbid = ascii ''R1'', ligand = ascii ''L1'', internal_ligand = ascii ''L1''\<rparr>"

definition grid_R2 :: grid_file where
  "grid_R2 = \<lparr>pdbid = ascii ''R2'', ligand = ascii ''L2'', internal_ligand = ascii ''L2''\<rparr>"

definition lig_A :: ligand_file where
  "lig_A = \<lparr>ligand_name = ascii ''A'', file_dir = ascii ''/w/ligands'',
     file_name = ascii ''A.mae'', structures = []\<rparr>"

definition lig_B :: ligand_file where
  "lig_B = \<lparr>ligand_name = ascii ''B'', file_dir = ascii ''/w/ligands'',
     file_name = ascii ''B.mae'', structures = []\<rparr>"

definition lig_C :: ligand_file where
  "lig_C = \<lparr>ligand_name = ascii ''C'', file_dir = ascii ''/w/ligands'',
     file_name = ascii ''C.mae'', structures = []\<rparr>"

lemmas scenario_defs =
  grid_R1_def grid_R2_def lig_A_def lig_B_def lig_C_def ascii_def mapping_key_def

theorem creat_mapping_full_cross_product_witness:
  "static_creat_mapping [grid_R1, grid_R2] [lig_A, lig_B, lig_C] (Some []) =
     [(grid_R1, lig_A), (grid_R1, lig_B), (grid_R1, lig_C),
      (grid_R2, lig_A), (grid_R2, lig_B), (grid_R2, lig_C)]
   \<and> length (static_creat_mapping [grid_R1, grid_R2] [lig_A, lig_B, lig_C] (Some [])) = 2 * 3
   \<and> static_creat_mapping [grid_R1, grid_R2] [lig_A, lig_B, lig_C] (Some []) ! (1 * 3 + 2) =
       (grid_R2, lig_C)
   \<and> static_creat_mapping [] [lig_A] (Some []) = []"
  using creat_mapping_full_cross_product [of "[grid_R1, grid_R2]" "[lig_A, lig_B, lig_C]"]
    creat_mapping_full_cross_product [of "[]" "[lig_A]"]
  by simp

lemma filter_key_card:
  "distinct (map f xs) \<Longrightarrow> length (filter (\<lambda>x. f x \<in> A) xs) = card (A \<inter> f ` set xs)"
proof (induction xs)
  case Nil
  then show ?case by simp
next
  case (Cons x xs)
  then have nin: "f x \<notin> f ` set xs" and d: "distinct (map f xs)" by auto
  show ?case
  proof (cases "f x \<in> A")
    case True
    then have "A \<inter> f ` set (x # xs) = insert (f x) (A \<inter> f ` set xs)" by auto
    moreover have "f x \<notin> A \<inter> f ` set xs" using nin by simp
    ultimately show ?thesis using True Cons.IH [OF d] by simp
  next
    case False
    then have "A \<inter> f ` set (x # xs) = A \<inter> f ` set xs" by auto
    then show ?thesis using False Cons.IH [OF d] by simp
  qed
qed

lemma length_filter_compl:
  "length (filter (\<lambda>x. \<not> P x) xs) = length xs - length (filter P xs)"
  by (induction xs) (auto simp: Suc_diff_le)

text \<open>
  C2. With an exclusion list the mapping is the cross product, in the same order, without
  the pairs whose key (compared as a whole triple) is in the list: its length is m * n
  minus the number of pairs of the cross product whose key is excluded, no pair of the
  result has an excluded key, and a pair of the cross product is in the result exactly
  when its key is not excluded. Where the keys of the cross product are pairwise
  distinct, the number of pairs left out is the number of excluded keys that are keys of
  the cross product.
\<close>

theorem creat_mapping_excludes_failed:
  "static_creat_mapping gs ls (Some failed) =
     filter (\<lambda>(g, l). mapping_key g l \<notin> set failed) (List.product gs ls)
   \<and> length (static_creat_mapping gs ls (Some failed)) =
       length gs * length ls -
       length (filter (\<lambda>(g, l). mapping_key g l \<in> set failed) (List.product gs ls))
   \<and> (\<forall>(g, l) \<in> set (static_creat_mapping gs ls (Some failed)). mapping_key g l \<notin> set failed)
   \<and> (\<forall>g \<in> set gs. \<forall>l \<in> set ls.
         ((g, l) \<in> set (static_creat_mapping gs ls (Some failed))) = (mapping_key g l \<notin> set failed))
   \<and> (distinct (map (\<lambda>(g, l). mapping_key g l) (List.product gs ls)) \<longrightarrow>
         length (static_creat_mapping gs ls (Some failed)) =
           length gs * length ls -
           card (set failed \<inter> (\<lambda>(g, l). mapping_key g l) ` set (List.product gs ls)))"
proof -
  let ?res = "static_creat_mapping gs ls (Some failed)"
  let ?key = "\<lambda>(g, l). mapping_key g l"
  have ex: "(\<lambda>p. \<not> excluded failed p) = (\<lambda>(g, l). mapping_key g l \<notin> set failed)"
    by (auto simp: excluded_def)
  have a: "?res = filter (\<lambda>(g, l). mapping_key g l \<notin> set failed) (List.product gs ls)"
    by (simp add: static_creat_mapping_filter ex)
  have inx: "(\<lambda>(g, l). mapping_key g l \<in> set failed) = (\<lambda>p. ?key p \<in> set failed)"
    by auto
  have nix: "(\<lambda>(g, l). mapping_key g l \<notin> set failed) = (\<lambda>p. \<not> ?key p \<in> set failed)"
    by auto
  have b: "length ?res = length gs * length ls -
       length (filter (\<lambda>(g, l). mapping_key g l \<in> set failed) (List.product gs ls))"
    unfolding a inx nix
    using length_filter_compl [of "\<lambda>p. ?key p \<in> set failed" "List.product gs ls"]
    by simp
  have c: "\<forall>(g, l) \<in> set ?res. mapping_key g l \<notin> set failed"
    unfolding a by auto
  have d: "\<forall>g \<in> set gs. \<forall>l \<in> set ls. ((g, l) \<in> set ?res) = (mapping_key g l \<notin> set failed)"
    unfolding a by auto
  have e: "distinct (map ?key (List.product gs ls)) \<longrightarrow>
         length ?res = length gs * length ls - card (set failed \<inter> ?key ` set (List.product gs ls))"
    using b filter_key_card [of ?key "List.product gs ls" "set failed"] by (simp add: inx)
  show ?thesis by (intro conjI a b c d e)
qed

theorem creat_mapping_excludes_failed_witness:
  "static_creat_mapping [grid_R1, grid_R2] [lig_A, lig_B, lig_C]
       (Some [(ascii ''R2'', ascii ''L2'', ascii ''C'')]) =
     [(grid_R1, lig_A), (grid_R1, lig_B), (grid_R1, lig_C), (grid_R2, lig_A), (grid_R2, lig_B)]
   \<and> length (static_creat_mapping [grid_R1, grid_R2] [lig_A, lig_B, lig_C]
       (Some [(ascii ''R2'', ascii ''L2'', ascii ''C'')])) = 2 * 3 - 1
   \<and> mapping_key grid_R2 lig_C = (ascii ''R2'', ascii ''L2'', ascii ''C'')
   \<and> (grid_R2, lig_C) \<notin> set (static_creat_mapping [grid_R1, grid_R2] [lig_A, lig_B, lig_C]
       (Some [(ascii ''R2'', ascii ''L2'', ascii ''C'')]))
   \<and> (grid_R2, lig_B) \<in> set (static_creat_mapping [grid_R1, grid_R2] [lig_A, lig_B, lig_C]
       (Some [(ascii ''R2'', ascii ''L2'', ascii ''C'')]))
   \<and> distinct (map (\<lambda>(g, l). mapping_key g l)
       (List.product [grid_R1, grid_R2] [lig_A, lig_B, lig_C]))"
  using creat_mapping_excludes_failed [of "[grid_R1, grid_R2]" "[lig_A, lig_B, lig_C]"
    "[(ascii ''R2'', ascii ''L2'', ascii ''C'')]"]
  by (simp add: scenario_defs)

section \<open>Properties of the default number of workers\<close>

theorem num_parallel_not_three_quarters:
  "NUM_PARALLEL 6 = 3 \<and> 4 * NUM_PARALLEL 6 \<noteq> 3 * 6 \<and> NUM_PARALLEL 6 \<noteq> (3 * 6) div 4
   \<and> NUM_PARALLEL 2 = 0"
  by (simp add: NUM_PARALLEL_def)

text \<open>
  C9, as the code has it. The default worker count is three times the whole number of
  fours in the core count: it is 3/4 of the cores exactly when the core count is a
  multiple of four, and otherwise falls short of it by 3/4 of the remainder (so it is 0
  below four cores).
\<close>

theorem num_parallel_value:
  "NUM_PARALLEL n = 3 * (n div 4)
   \<and> (4 * NUM_PARALLEL n = 3 * n) = (n mod 4 = 0)
   \<and> 4 * NUM_PARALLEL n \<le> 3 * n
   \<and> 3 * n - 4 * NUM_PARALLEL n = 3 * (n mod 4)"
proof -
  have e: "n = 4 * (n div 4) + n mod 4" by simp
  have a: "NUM_PARALLEL n = 3 * (n div 4)" by (simp add: NUM_PARALLEL_def)
  have d: "3 * n - 4 * NUM_PARALLEL n = 3 * (n mod 4)"
    unfolding a using e by linarith
  have b: "(4 * NUM_PARALLEL n = 3 * n) = (n mod 4 = 0)"
    using d by linarith
  have c: "4 * NUM_PARALLEL n \<le> 3 * n"
  proof -
    have "0 \<le> n mod 4" by simp
    with d show ?thesis by linarith
  qed
  show ?thesis by (intro conjI a b c d)
qed

section \<open>Loading the ledger\<close>

lemma get_failed_list_missing:
  "fs (failed_list_file_path self precision) = None \<Longrightarrow> get_failed_list self fs precision = Inr None"
  by (simp add: get_failed_list_def)

lemma get_failed_list_cong:
  "result_save_dir self' = result_save_dir self \<Longrightarrow>
     get_failed_list self' fs precision = get_failed_list self fs precision"
  by (simp add: get_failed_list_def failed_list_file_path_def)

theorem load_missing_ledger_counterexample:
  "get_failed_list (init [] (ascii ''/w'')) Map.empty (ascii ''SP'') = Inr None
   \<and> get_failed_list (init [] (ascii ''/w'')) Map.empty (ascii ''SP'') \<noteq> Inr (Some [])"
  by (simp add: get_failed_list_def)

text \<open>The console of the scenario after grid generation and ligand splitting.\<close>

definition scenario_pairs :: "(pystr \<times> pystr) list" where
  "scenario_pairs = [(ascii ''R1'', ascii ''L1''), (ascii ''R2'', ascii ''L2'')]"

definition scenario_paths :: "pystr list" where
  "scenario_paths = [ascii ''/w/ligands/A.mae'', ascii ''/w/ligands/B.mae'', ascii ''/w/ligands/C.mae'']"

definition scenario_console :: console where
  "scenario_console =
     (init scenario_pairs (ascii ''/w''))
       \<lparr>grid_file_list := Some [grid_R1, grid_R2], ligand_path_list := Some scenario_paths\<rparr>"

definition scenario_LigandFile :: "pystr \<Rightarrow> ligand_file" where
  "scenario_LigandFile p =
     (if p = ascii ''/w/ligands/A.mae'' then lig_A
      else if p = ascii ''/w/ligands/B.mae'' then lig_B
      else lig_C)"

lemma scenario_ligands: "map scenario_LigandFile scenario_paths = [lig_A, lig_B, lig_C]"
  by (simp add: scenario_LigandFile_def scenario_paths_def ascii_def)

text \<open>
  C5, as the code has it. When no ledger file exists for the precision, loading raises
  nothing and returns \<open>None\<close> (no list at all, not an empty one); the mapping builder
  takes \<open>None\<close> for the empty exclusion list, so that \<open>creat_mapping\<close> then maps the
  whole cross product.
\<close>

theorem load_missing_ledger_is_None:
  assumes "fs (failed_list_file_path self precision) = None"
  shows "get_failed_list self fs precision = Inr None
   \<and> static_creat_mapping grids ligands None = static_creat_mapping grids ligands (Some [])
   \<and> (ligand_path_list self = Some paths \<and> grid_file_list self = Some grids \<longrightarrow>
        creat_mapping LigandFile precision self fs =
          (Inr (),
           self\<lparr>ligand_file_list := Some (map LigandFile paths),
                mapping := Some (List.product grids (map LigandFile paths))\<rparr>,
           fs))"
proof -
  have a: "get_failed_list self fs precision = Inr None"
    using assms by (rule get_failed_list_missing)
  have b: "get_failed_list (self\<lparr>ligand_file_list := Some (map LigandFile paths)\<rparr>) fs precision = Inr None"
    using a get_failed_list_cong [of "self\<lparr>ligand_file_list := Some (map LigandFile paths)\<rparr>" self fs precision]
    by simp
  have c: "static_creat_mapping grids (map LigandFile paths) None = List.product grids (map LigandFile paths)"
    by (simp add: static_creat_mapping_None static_creat_mapping_empty)
  have d: "ligand_path_list self = Some paths \<and> grid_file_list self = Some grids \<longrightarrow>
        creat_mapping LigandFile precision self fs =
          (Inr (),
           self\<lparr>ligand_file_list := Some (map LigandFile paths),
                mapping := Some (List.product grids (map LigandFile paths))\<rparr>,
           fs)"
    using b c by (simp add: creat_mapping_def Let_def)
  show ?thesis
    using a d static_creat_mapping_None by blast
qed

theorem load_missing_ledger_is_None_witness:
  "Map.empty (failed_list_file_path scenario_console (ascii ''SP'')) = (None :: pystr option)
   \<and> ligand_path_list scenario_console = Some scenario_paths
   \<and> grid_file_list scenario_console = Some [grid_R1, grid_R2]
   \<and> get_failed_list scenario_console Map.empty (ascii ''SP'') = Inr None
   \<and> creat_mapping scenario_LigandFile (ascii ''SP'') scenario_console Map.empty =
       (Inr (),
        scenario_console\<lparr>ligand_file_list := Some [lig_A, lig_B, lig_C],
          mapping := Some [(grid_R1, lig_A), (grid_R1, lig_B), (grid_R1, lig_C),
                           (grid_R2, lig_A), (grid_R2, lig_B), (grid_R2, lig_C)]\<rparr>,
        Map.empty)"
proof -
  have p: "ligand_path_list scenario_console = Some scenario_paths"
    and g: "grid_file_list scenario_console = Some [grid_R1, grid_R2]"
    by (simp_all add: scenario_console_def)
  have h: "Map.empty (failed_list_file_path scenario_console (ascii ''SP'')) = (None :: pystr option)"
    by simp
  show ?thesis
    using load_missing_ledger_is_None [OF h, where paths = scenario_paths
        and grids = "[grid_R1, grid_R2]" and ligands = "[lig_A]"
        and LigandFile = scenario_LigandFile] p g
    by (simp add: scenario_ligands)
qed

section \<open>The guards of the stages\<close>

lemma creat_mapping_requires_ligand_split:
  "ligand_path_list self = None \<Longrightarrow>
     creat_mapping LigandFile precision self fs =
       (Inl (RuntimeError ''Please run ligand_split first.''), self, fs)"
  by (simp add: creat_mapping_def)

lemma creat_mapping_requires_grid_generate:
  "ligand_path_list self = Some paths \<Longrightarrow> grid_file_list self = None \<Longrightarrow>
     creat_mapping LigandFile precision self fs =
       (Inl (RuntimeError ''Please run grid_generate first.''), self, fs)"
  by (simp add: creat_mapping_def)

lemma multi_grid_generate_requires_minimize:
  "minimized_file_list self = None \<Longrightarrow>
     multi_grid_generate run_grid self fs =
       (Inl (FileNotFoundError ''No minimized file found. Please run minimize first.''), self, fs)"
  by (simp add: multi_grid_generate_def)

lemma multi_dock_guard_reached:
  "grid_file_list self = Some grids \<Longrightarrow> ligand_file_list self = Some ligands \<Longrightarrow>
   mapping self = None \<Longrightarrow>
     multi_dock run_dock order precision self fs =
       (Inl (RuntimeError ''Please run creat_mapping first.''), self, fs)"
  by (simp add: multi_dock_def)

lemma multi_dock_without_ligand_files:
  "ligand_file_list self = None \<Longrightarrow>
     multi_dock run_dock order precision self fs = (Inl TypeError, self, fs)"
  by (simp add: multi_dock_def split: option.splits)

text \<open>
  C7 fails for \<open>multi_dock\<close>. On a console that has never created a mapping (fresh, or
  after grid generation and ligand splitting), \<open>ligand_file_list\<close> is still \<open>None\<close>,
  and \<open>multi_dock\<close> raises the TypeError of \<open>len(None)\<close> in its debug message, not
  the RuntimeError that names the missing stage: the guard of line 309 is never reached.
\<close>

theorem multi_dock_before_creat_mapping_TypeError:
  "multi_dock run_dock order precision (init pairs cwd) fs = (Inl TypeError, init pairs cwd, fs)
   \<and> multi_dock run_dock order precision
        ((init pairs cwd)\<lparr>grid_file_list := Some grids, ligand_path_list := Some paths\<rparr>) fs =
      (Inl TypeError,
       (init pairs cwd)\<lparr>grid_file_list := Some grids, ligand_path_list := Some paths\<rparr>, fs)
   \<and> Inl TypeError \<noteq> (Inl (RuntimeError ''Please run creat_mapping first.'') :: error + unit)"
  by (simp add: multi_dock_without_ligand_files init_def)

section \<open>Extraction without a ledger\<close>

lemma extract_inner_None:
  "names \<noteq> [] \<Longrightarrow> extract_inner base precision None pdbid' ligid names acc = Inl TypeError"
  by (cases names) simp_all

lemma extract_outer_None:
  "pairs \<noteq> [] \<Longrightarrow> names \<noteq> [] \<Longrightarrow>
     extract_outer base precision None pairs names acc = Inl TypeError"
  by (cases pairs) (auto simp: extract_inner_None)

text \<open>With a list, empty or not, the loops return the paths of all pairs not in it.\<close>

lemma extract_inner_with_list:
  "extract_inner base precision (Some fl) pdbid' ligid names acc =
     Inr (acc @ map (\<lambda>name. dockfile_path base pdbid' ligid name precision)
                  (filter (\<lambda>name. (pdbid', ligid, name) \<notin> set fl) names))"
  by (induction names arbitrary: acc) simp_all

lemma extract_outer_with_list:
  "extract_outer base precision (Some fl) pairs names acc =
     Inr (acc @ concat (map (\<lambda>(pdbid', ligid).
                   map (\<lambda>name. dockfile_path base pdbid' ligid name precision)
                     (filter (\<lambda>name. (pdbid', ligid, name) \<notin> set fl) names)) pairs))"
  by (induction pairs arbitrary: acc) (auto simp: extract_inner_with_list)

text \<open>
  C10. When no dock result list is in memory and no ledger file exists for the precision,
  \<open>multi_extract_data\<close> gets \<open>None\<close> from the ledger load and, at the first pair it
  checks (there is one as soon as the pairs and the ligand paths are not empty), raises
  TypeError: the missing ledger is not taken for an empty one, and no dock result is
  extracted.
\<close>

theorem multi_extract_data_None_TypeError:
  assumes "dock_file_list self = None"
    and "ligand_path_list self = Some paths"
    and "paths \<noteq> []"
    and "pairs_list self \<noteq> []"
    and "fs (failed_list_file_path self precision) = None"
  shows "get_failed_list self fs precision = Inr None
    \<and> multi_extract_data DockResultFile run_extract precision self fs = (Inl TypeError, self)"
proof -
  have a: "get_failed_list self fs precision = Inr None"
    using assms(5) by (rule get_failed_list_missing)
  have "extract_outer (base_dock_save_dir self) precision None (pairs_list self)
          (map (\<lambda>ligand_path. hd (py_split dot (basename ligand_path))) paths) [] = Inl TypeError"
    using assms(3,4) by (intro extract_outer_None) simp_all
  with a assms(1,2) show ?thesis
    by (simp add: multi_extract_data_def Let_def)
qed

definition scenario_DockResultFile :: "pystr \<Rightarrow> dock_result_file" where
  "scenario_DockResultFile p =
     \<lparr>result_pdbid = [], internal_ligand_name = [], docking_ligand_name = basename p\<rparr>"

theorem multi_extract_data_None_TypeError_witness:
  "dock_file_list scenario_console = None
   \<and> ligand_path_list scenario_console = Some scenario_paths
   \<and> scenario_paths \<noteq> []
   \<and> pairs_list scenario_console \<noteq> []
   \<and> Map.empty (failed_list_file_path scenario_console (ascii ''SP'')) = (None :: pystr option)
   \<and> multi_extract_data scenario_DockResultFile (\<lambda>fs ds. map docking_ligand_name ds)
        (ascii ''SP'') scenario_console Map.empty = (Inl TypeError, scenario_console)"
proof -
  have a: "dock_file_list scenario_console = None"
    and b: "ligand_path_list scenario_console = Some scenario_paths"
    and c: "scenario_paths \<noteq> []"
    and d: "pairs_list scenario_console \<noteq> []"
    by (simp_all add: scenario_console_def init_def scenario_paths_def scenario_pairs_def)
  have e: "Map.empty (failed_list_file_path scenario_console (ascii ''SP'')) = (None :: pystr option)"
    by simp
  show ?thesis
    using multi_extract_data_None_TypeError [OF a b c d e, where
        DockResultFile = scenario_DockResultFile
        and run_extract = "\<lambda>fs ds. map docking_ligand_name ds"] a b c d
    by simp
qed

section \<open>Reconciliation after docking and the round trip of the ledger\<close>
















lemma py_join_explicit:
  "xs \<noteq> [] \<Longrightarrow> py_join sep xs = concat (map (\<lambda>l. l @ sep) (butlast xs)) @ last xs"
  by (induction sep xs rule: py_join.induct) simp_all








subsection \<open>The scenario: two grids, three ligands and the ledgers of earlier batches\<close>


















subsection \<open>The round trip of the ledger\<close>






subsection \<open>A grid whose attributes \<open>ligand\<close> and \<open>internal_ligand\<close> differ\<close>












subsection \<open>The round trip in the scenario\<close>











section \<open>Splitting a ligand file: \<open>split_ligand\<close>\<close>

text \<open>
  \<open>split_ligand(ligand_file, save_dir, overwrite)\<close>. The serialisation that
  \<open>structure.write\<close> puts into the file is the parameter \<open>write_mae\<close>; a property
  is formatted as an f-string formats it. The loop raises KeyError at a structure
  without the property \<open>s_m_title\<close>, leaving the files written so far.
\<close>

definition py_format :: "pyval \<Rightarrow> pystr" where
  "py_format v =
     (case v of
        VStr s \<Rightarrow> s
      | VInt i \<Rightarrow> py_str_int i
      | VBool b \<Rightarrow> (if b then ascii ''True'' else ascii ''False''))"

definition activity_label_name :: "pystr list" where
  "activity_label_name =
     concat (map (\<lambda>type'. map (\<lambda>label. type' @ ascii ''_user_'' @ label)
                                [ascii ''Activity'', ascii ''activity''])
                 [ascii ''b'', ascii ''s''])"

fun find_activity :: "structure_obj \<Rightarrow> pystr list \<Rightarrow> pyval" where
  "find_activity st [] = VStr []"
| "find_activity st (label # labels) =
     (case property st label of
        Some v \<Rightarrow> v
      | None \<Rightarrow> find_activity st labels)"

fun split_loop ::
  "(structure_obj \<Rightarrow> pystr) \<Rightarrow> pystr \<Rightarrow> bool \<Rightarrow> nat \<Rightarrow> structure_obj list \<Rightarrow>
   pystr list \<Rightarrow> pystr list \<Rightarrow> filesystem \<Rightarrow> (error + pystr list \<times> pystr list) \<times> filesystem"
where
  "split_loop write_mae save_dir overwrite index [] label_list path_list fs =
     (Inr (label_list, path_list), fs)"
| "split_loop write_mae save_dir overwrite index (st # sts) label_list path_list fs =
     (case property st (ascii ''s_m_title'') of
        None \<Rightarrow> (Inl (KeyError ''s_m_title''), fs)
      | Some title \<Rightarrow>
          (let st_name = py_str_nat index @ [hyphen] @ py_format title;
               st' = st\<lparr>property := (property st)(ascii ''i_user_StructureIndex'' \<mapsto> VInt (int index))\<rparr>;
               st_activity = find_activity st' activity_label_name;
               label_list' = label_list @ [st_name @ [comma] @ py_format st_activity];
               output_file = path_join save_dir (st_name @ ascii ''.mae'');
               fs' = (if fs output_file = None \<or> overwrite then fs(output_file \<mapsto> write_mae st') else fs)
           in split_loop write_mae save_dir overwrite (Suc index) sts label_list'
                (path_list @ [output_file]) fs'))"

definition split_ligand ::
  "(structure_obj \<Rightarrow> pystr) \<Rightarrow> ligand_file \<Rightarrow> pystr option \<Rightarrow> bool \<Rightarrow> filesystem \<Rightarrow>
   (error + pystr list) \<times> filesystem"
where
  "split_ligand write_mae ligand_file' save_dir overwrite fs =
     (let save_dir' = (case save_dir of None \<Rightarrow> file_dir ligand_file' | Some d \<Rightarrow> d)
      in case split_loop write_mae save_dir' overwrite 0 (structures ligand_file') [] [] fs of
           (Inl e, fs') \<Rightarrow> (Inl e, fs')
         | (Inr (label_list, path_list), fs') \<Rightarrow>
             (Inr path_list,
              fs'(path_join save_dir' (ascii ''label.csv'') \<mapsto> py_join [newline] label_list)))"

definition structure_label :: "nat \<Rightarrow> structure_obj \<Rightarrow> pystr" where
  "structure_label index st =
     py_str_nat index @ [hyphen] @
       (case property st (ascii ''s_m_title'') of Some title \<Rightarrow> py_format title | None \<Rightarrow> [])"

definition activity_value :: "structure_obj \<Rightarrow> pystr" where
  "activity_value st = py_format (find_activity st activity_label_name)"

definition label_line :: "nat \<times> structure_obj \<Rightarrow> pystr" where
  "label_line p = structure_label (fst p) (snd p) @ [comma] @ activity_value (snd p)"

definition digits_value :: "pystr \<Rightarrow> nat" where
  "digits_value s = foldl (\<lambda>a c. 10 * a + (c - 48)) 0 s"

lemma digits_value_py_str_nat: "digits_value (py_str_nat n) = n"
proof (induction n rule: py_str_nat.induct)
  case (1 n)
  show ?case
  proof (cases "n < 10")
    case True
    then show ?thesis by (simp add: py_str_nat.simps [of n] digits_value_def)
  next
    case False
    then have "digits_value (py_str_nat (n div 10)) = n div 10" using 1 by simp
    then show ?thesis
      using False by (simp add: py_str_nat.simps [of n] digits_value_def)
  qed
qed

lemma py_str_nat_inj: "py_str_nat i = py_str_nat j \<Longrightarrow> i = j"
  by (metis digits_value_py_str_nat)

lemma py_str_nat_digits: "c \<in> set (py_str_nat n) \<Longrightarrow> 48 \<le> c \<and> c \<le> 57"
proof (induction n rule: py_str_nat.induct)
  case (1 n)
  show ?case
  proof (cases "n < 10")
    case True
    with 1 show ?thesis by (simp add: py_str_nat.simps [of n])
  next
    case False
    with 1 show ?thesis by (auto simp: py_str_nat.simps [of n])
  qed
qed

lemma py_str_nat_no_hyphen: "hyphen \<notin> set (py_str_nat n)"
  using py_str_nat_digits [of hyphen n] by (auto simp: hyphen_def)

lemma takeWhile_before_sep:
  "sep \<notin> set a \<Longrightarrow> takeWhile (\<lambda>c. c \<noteq> sep) (a @ sep # r) = a"
  by (induction a) auto

lemma prefix_before_sep:
  assumes "sep \<notin> set a" and "sep \<notin> set b" and "a @ sep # r = b @ sep # r'"
  shows "a = b"
proof -
  have "takeWhile (\<lambda>c. c \<noteq> sep) (a @ sep # r) = a"
    using assms(1) by (rule takeWhile_before_sep)
  moreover have "takeWhile (\<lambda>c. c \<noteq> sep) (b @ sep # r') = b"
    using assms(2) by (rule takeWhile_before_sep)
  ultimately show "a = b" using assms(3) by simp
qed

lemma structure_label_inj: "structure_label i st = structure_label j st' \<Longrightarrow> i = j"
  unfolding structure_label_def
  using prefix_before_sep [OF py_str_nat_no_hyphen py_str_nat_no_hyphen] py_str_nat_inj
  by (metis append_Cons append_Nil)

lemma find_activity_other_property:
  "k \<notin> set labels \<Longrightarrow>
     find_activity (st\<lparr>property := (property st)(k \<mapsto> v)\<rparr>) labels = find_activity st labels"
  by (induction labels) (auto split: option.splits)

lemma index_not_activity_label: "ascii ''i_user_StructureIndex'' \<notin> set activity_label_name"
  by (simp add: activity_label_name_def ascii_def)

lemma split_loop_step:
  assumes "property st (ascii ''s_m_title'') = Some title"
  shows "split_loop write_mae save_dir overwrite index (st # sts) label_list path_list fs =
      split_loop write_mae save_dir overwrite (Suc index) sts
        (label_list @ [label_line (index, st)])
        (path_list @ [path_join save_dir (structure_label index st @ ascii ''.mae'')])
        (if fs (path_join save_dir (structure_label index st @ ascii ''.mae'')) = None \<or> overwrite
         then fs(path_join save_dir (structure_label index st @ ascii ''.mae'') \<mapsto>
                write_mae (st\<lparr>property := (property st)(ascii ''i_user_StructureIndex'' \<mapsto> VInt (int index))\<rparr>))
         else fs)"
proof -
  have name: "py_str_nat index @ [hyphen] @ py_format title = structure_label index st"
    by (simp add: structure_label_def assms)
  have act: "find_activity
        (st\<lparr>property := (property st)(ascii ''i_user_StructureIndex'' \<mapsto> VInt (int index))\<rparr>)
        activity_label_name = find_activity st activity_label_name"
    by (rule find_activity_other_property [OF index_not_activity_label])
  have line: "structure_label index st @ [comma] @ py_format (find_activity st activity_label_name) =
      label_line (index, st)"
    by (simp add: label_line_def activity_value_def)
  show ?thesis
    unfolding split_loop.simps assms option.case Let_def name act line ..
qed

lemma split_loop_returns:
  "\<forall>st \<in> set sts. property st (ascii ''s_m_title'') \<noteq> None \<Longrightarrow>
     \<exists>fs'. split_loop write_mae save_dir overwrite index sts label_list path_list fs =
       (Inr (label_list @ map label_line (enumerate index sts),
             path_list @ map (\<lambda>p. path_join save_dir (structure_label (fst p) (snd p) @ ascii ''.mae''))
                           (enumerate index sts)),
        fs')"
proof (induction sts arbitrary: index label_list path_list fs)
  case Nil
  show ?case by simp
next
  case (Cons st sts)
  from Cons.prems obtain title where title: "property st (ascii ''s_m_title'') = Some title"
    by auto
  have rest: "\<forall>st \<in> set sts. property st (ascii ''s_m_title'') \<noteq> None"
    using Cons.prems by simp
  have e: "enumerate index (st # sts) = (index, st) # enumerate (Suc index) sts"
    by simp
  let ?out = "path_join save_dir (structure_label index st @ ascii ''.mae'')"
  let ?L = "label_list @ [label_line (index, st)]"
  let ?P = "path_list @ [?out]"
  let ?F = "if fs ?out = None \<or> overwrite
         then fs(?out \<mapsto>
                write_mae (st\<lparr>property := (property st)(ascii ''i_user_StructureIndex'' \<mapsto> VInt (int index))\<rparr>))
         else fs"
  have "\<exists>fs'. split_loop write_mae save_dir overwrite (Suc index) sts ?L ?P ?F =
       (Inr (?L @ map label_line (enumerate (Suc index) sts),
             ?P @ map (\<lambda>p. path_join save_dir (structure_label (fst p) (snd p) @ ascii ''.mae''))
                           (enumerate (Suc index) sts)),
        fs')"
    by (rule Cons.IH [OF rest])
  then show ?case
    unfolding split_loop_step [OF title] e list.map by simp
qed

lemma label_line_nonempty: "label_line p \<noteq> []"
  by (simp add: label_line_def)

lemma enumerate_same_index:
  "(i, a) \<in> set (enumerate n xs) \<Longrightarrow> (i, b) \<in> set (enumerate n xs) \<Longrightarrow> a = b"
  by (auto simp: in_set_enumerate_eq)

lemma distinct_structure_labels:
  "distinct (map (\<lambda>p. structure_label (fst p) (snd p)) (enumerate n sts))"
proof -
  have "inj_on (\<lambda>p. structure_label (fst p) (snd p)) (set (enumerate n sts))"
  proof (rule inj_onI)
    fix p q
    assume p: "p \<in> set (enumerate n sts)" and q: "q \<in> set (enumerate n sts)"
      and e: "structure_label (fst p) (snd p) = structure_label (fst q) (snd q)"
    from e have i: "fst p = fst q" by (rule structure_label_inj)
    have "(fst p, snd p) \<in> set (enumerate n sts)" using p by simp
    moreover have "(fst p, snd q) \<in> set (enumerate n sts)"
      unfolding i using q by simp
    ultimately have "snd p = snd q" by (rule enumerate_same_index)
    with i show "p = q" by (simp add: prod_eq_iff)
  qed
  then show ?thesis by (simp add: distinct_map)
qed

lemma split_ligand_of_loop:
  assumes loop: "split_loop write_mae (case save_dir of None \<Rightarrow> file_dir lf | Some d \<Rightarrow> d)
      overwrite 0 (structures lf) [] [] fs = (Inr (labels, paths), fs1)"
  shows "split_ligand write_mae lf save_dir overwrite fs =
      (Inr paths,
       fs1(path_join (case save_dir of None \<Rightarrow> file_dir lf | Some d \<Rightarrow> d) (ascii ''label.csv'') \<mapsto>
             py_join [newline] labels))"
    unfolding split_ligand_def Let_def loop by (simp only: prod.case sum.case)

lemma split_ligand_returns:
  assumes "\<forall>st \<in> set (structures lf). property st (ascii ''s_m_title'') \<noteq> None"
    and "dir = (case save_dir of None \<Rightarrow> file_dir lf | Some d \<Rightarrow> d)"
  shows "\<exists>fs1. split_ligand write_mae lf save_dir overwrite fs =
      (Inr (map (\<lambda>p. path_join dir (structure_label (fst p) (snd p) @ ascii ''.mae''))
              (enumerate 0 (structures lf))),
       fs1(path_join dir (ascii ''label.csv'') \<mapsto>
             py_join [newline] (map label_line (enumerate 0 (structures lf)))))"
proof -
  have "\<exists>fs1. split_loop write_mae dir overwrite 0 (structures lf) [] [] fs =
      (Inr ([] @ map label_line (enumerate 0 (structures lf)),
            [] @ map (\<lambda>p. path_join dir (structure_label (fst p) (snd p) @ ascii ''.mae''))
                  (enumerate 0 (structures lf))),
       fs1)"
    using assms(1) by (rule split_loop_returns)
  then obtain fs1 where "split_loop write_mae dir overwrite 0 (structures lf) [] [] fs =
      (Inr ([] @ map label_line (enumerate 0 (structures lf)),
            [] @ map (\<lambda>p. path_join dir (structure_label (fst p) (snd p) @ ascii ''.mae''))
                  (enumerate 0 (structures lf))),
       fs1)" ..
  then have "split_loop write_mae (case save_dir of None \<Rightarrow> file_dir lf | Some d \<Rightarrow> d)
      overwrite 0 (structures lf) [] [] fs =
      (Inr (map label_line (enumerate 0 (structures lf)),
            map (\<lambda>p. path_join dir (structure_label (fst p) (snd p) @ ascii ''.mae''))
                  (enumerate 0 (structures lf))),
       fs1)"
    unfolding append_Nil assms(2) [symmetric] .
  then have "split_ligand write_mae lf save_dir overwrite fs =
      (Inr (map (\<lambda>p. path_join dir (structure_label (fst p) (snd p) @ ascii ''.mae''))
              (enumerate 0 (structures lf))),
       fs1(path_join (case save_dir of None \<Rightarrow> file_dir lf | Some d \<Rightarrow> d) (ascii ''label.csv'') \<mapsto>
             py_join [newline] (map label_line (enumerate 0 (structures lf)))))"
    by (rule split_ligand_of_loop)
  then have final: "split_ligand write_mae lf save_dir overwrite fs =
      (Inr (map (\<lambda>p. path_join dir (structure_label (fst p) (snd p) @ ascii ''.mae''))
              (enumerate 0 (structures lf))),
       fs1(path_join dir (ascii ''label.csv'') \<mapsto>
             py_join [newline] (map label_line (enumerate 0 (structures lf)))))"
    unfolding assms(2) [symmetric] .
  show ?thesis by (intro exI) (rule final)
qed

text \<open>What splitting writes, spelled out.\<close>

lemma py_str_nat_nonempty: "py_str_nat n \<noteq> []"
  by (simp add: py_str_nat.simps [of n])

lemma py_str_nat_hd_zero: "hd (py_str_nat n) = 48 \<Longrightarrow> py_str_nat n = [48]"
proof (induction n rule: py_str_nat.induct)
  case (1 n)
  show ?case
  proof (cases "n < 10")
    case True
    with 1 show ?thesis by (simp add: py_str_nat.simps [of n] py_str_nat.simps [of 0])
  next
    case False
    have "hd (py_str_nat n) = hd (py_str_nat (n div 10))"
      using False py_str_nat_nonempty [of "n div 10"] by (simp add: py_str_nat.simps [of n])
    with 1 False have "py_str_nat (n div 10) = [48]" by simp
    then have "digits_value (py_str_nat (n div 10)) = 0" by (simp add: digits_value_def)
    then have "n div 10 = 0" by (simp add: digits_value_py_str_nat)
    with False show ?thesis by simp
  qed
qed

lemma py_str_nat_value: "foldl (\<lambda>a c. 10 * a + (c - 48)) 0 (py_str_nat n) = n"
  using digits_value_py_str_nat [of n] by (simp add: digits_value_def)

lemma py_format_explicit:
  "py_format v =
     (case v of
        VStr s \<Rightarrow> s
      | VInt i \<Rightarrow> (if i < 0 then [45] @ py_str_nat (nat (- i)) else py_str_nat (nat i))
      | VBool b \<Rightarrow> (if b then ascii ''True'' else ascii ''False''))"
  by (simp add: py_format_def py_str_int_def hyphen_def split: pyval.splits)

lemma activity_value_explicit:
  "activity_value st =
     (case property st (ascii ''b_user_Activity'') of
        Some v \<Rightarrow> py_format v
      | None \<Rightarrow>
     (case property st (ascii ''b_user_activity'') of
        Some v \<Rightarrow> py_format v
      | None \<Rightarrow>
     (case property st (ascii ''s_user_Activity'') of
        Some v \<Rightarrow> py_format v
      | None \<Rightarrow>
     (case property st (ascii ''s_user_activity'') of
        Some v \<Rightarrow> py_format v
      | None \<Rightarrow> []))))"
  by (simp add: activity_value_def activity_label_name_def ascii_def py_format_def
      split: option.splits)

lemma count_separators:
  "xs \<noteq> [] \<Longrightarrow> \<forall>x \<in> set xs. sep \<notin> set x \<Longrightarrow>
     length (filter (\<lambda>c. c = sep) (py_join [sep] xs)) = length xs - 1"
proof (induction "[sep]" xs rule: py_join.induct)
  case 1
  then show ?case by simp
next
  case (2 x)
  then have "filter (\<lambda>c. c = sep) x = []" by (auto simp: filter_empty_conv)
  then show ?case by simp
next
  case (3 x y ys)
  then have "filter (\<lambda>c. c = sep) x = []" by (auto simp: filter_empty_conv)
  with 3 show ?case by simp
qed

lemma enumerate_as_indices:
  "map (\<lambda>p. f (fst p) (snd p)) (enumerate 0 xs) = map (\<lambda>i. f i (xs ! i)) [0..<length xs]"
  by (rule nth_equalityI) (simp_all add: nth_enumerate_eq)

lemma structure_label_explicit:
  "structure_label i st =
     py_str_nat i @ [45] @
       (case property st (ascii ''s_m_title'') of Some v \<Rightarrow> py_format v | None \<Rightarrow> [])"
  by (simp add: structure_label_def hyphen_def)

lemma label_line_explicit:
  "label_line (i, st) =
     py_str_nat i @ [45] @
       (case property st (ascii ''s_m_title'') of Some v \<Rightarrow> py_format v | None \<Rightarrow> [])
       @ [44] @ activity_value st"
  by (simp add: label_line_def structure_label_explicit comma_def)

lemma digit_not_linebreak: "c \<in> set (py_str_nat n) \<Longrightarrow> \<not> is_linebreak c"
  using py_str_nat_digits [of c n] by (auto simp: is_linebreak_def)

text \<open>
  C8, as the code has it. When every structure of the ligand file has the property
  \<open>s_m_title\<close>, splitting labels the structure at position \<open>i\<close> (from 0) with the
  decimal digits of \<open>i\<close>, a hyphen and the title; the labels are pairwise distinct whatever
  the titles; \<open>label.csv\<close> holds, joined by line feeds, one entry \<open>label,activity\<close> per
  structure in order, the activity being the first present of \<open>b_user_Activity\<close>,
  \<open>b_user_activity\<close>, \<open>s_user_Activity\<close> and \<open>s_user_activity\<close> as an f-string formats
  it (a string as it is, a boolean as True or False, an integer in decimal), or nothing.
  When no title and no activity holds a line boundary, the file reads back as exactly one
  line per structure.
\<close>

theorem split_ligand_labels:
  assumes "\<forall>st \<in> set (structures lf). property st (ascii ''s_m_title'') \<noteq> None"
  shows "\<exists>fs'.
    (let dir = (case save_dir of None \<Rightarrow> file_dir lf | Some d \<Rightarrow> d);
         sts = structures lf;
         format = (\<lambda>v. case v of
                     VStr s \<Rightarrow> s
                   | VInt i \<Rightarrow> (if i < 0 then [45] @ py_str_nat (nat (- i)) else py_str_nat (nat i))
                   | VBool b \<Rightarrow> (if b then ascii ''True'' else ascii ''False''));
         title = (\<lambda>st. case property st (ascii ''s_m_title'') of
                     Some v \<Rightarrow> format v | None \<Rightarrow> []);
         activity = (\<lambda>st.
           case property st (ascii ''b_user_Activity'') of Some v \<Rightarrow> format v | None \<Rightarrow>
          (case property st (ascii ''b_user_activity'') of Some v \<Rightarrow> format v | None \<Rightarrow>
          (case property st (ascii ''s_user_Activity'') of Some v \<Rightarrow> format v | None \<Rightarrow>
          (case property st (ascii ''s_user_activity'') of Some v \<Rightarrow> format v | None \<Rightarrow> []))));
         labels = map (\<lambda>i. py_str_nat i @ [45] @ title (sts ! i)) [0..<length sts];
         lines = map (\<lambda>i. py_str_nat i @ [45] @ title (sts ! i) @ [44] @ activity (sts ! i))
                   [0..<length sts];
         content = (if lines = [] then []
                    else concat (map (\<lambda>l. l @ [10]) (butlast lines)) @ last lines)
     in split_ligand write_mae lf save_dir overwrite fs =
          (Inr (map (\<lambda>l. path_join dir (l @ ascii ''.mae'')) labels), fs')
        \<and> fs' (path_join dir (ascii ''label.csv'')) = Some content
        \<and> distinct labels
        \<and> (\<forall>i < length sts.
              foldl (\<lambda>a c. 10 * a + (c - 48)) 0 (py_str_nat i) = i
              \<and> (\<forall>c \<in> set (py_str_nat i). 48 \<le> c \<and> c \<le> 57)
              \<and> py_str_nat i \<noteq> []
              \<and> (hd (py_str_nat i) = 48 \<longrightarrow> i = 0 \<and> py_str_nat i = [48]))
        \<and> ((\<forall>st \<in> set sts. \<forall>c \<in> set (title st @ activity st).
                c \<notin> set [10, 11, 12, 13, 28, 29, 30, 133, 8232, 8233]) \<longrightarrow>
              splitlines content = lines
              \<and> length (splitlines content) = length sts
              \<and> length (filter (\<lambda>c. c = 10) content) = length sts - 1))"
proof -
  define dir where "dir = (case save_dir of None \<Rightarrow> file_dir lf | Some d \<Rightarrow> d)"
  define sts where "sts = structures lf"
  define title where "title = (\<lambda>st :: structure_obj. case property st (ascii ''s_m_title'') of
                     Some v \<Rightarrow> py_format v | None \<Rightarrow> [])"
  define labels where "labels = map (\<lambda>i. py_str_nat i @ [45] @ title (sts ! i)) [0..<length sts]"
  define lines where "lines =
      map (\<lambda>i. py_str_nat i @ [45] @ title (sts ! i) @ [44] @ activity_value (sts ! i))
        [0..<length sts]"
  define content where "content = (if lines = [] then []
                    else concat (map (\<lambda>l. l @ [10]) (butlast lines)) @ last lines)"
  have labels_eq: "map (\<lambda>p. structure_label (fst p) (snd p)) (enumerate 0 sts) = labels"
    unfolding labels_def title_def structure_label_explicit by (rule enumerate_as_indices)
  have "map (\<lambda>p. label_line (fst p, snd p)) (enumerate 0 sts) = lines"
    unfolding lines_def title_def label_line_explicit by (rule enumerate_as_indices)
  then have lines_eq: "map label_line (enumerate 0 sts) = lines" by simp
  have content_eq: "py_join [newline] lines = content"
  proof (cases "lines = []")
    case True
    then show ?thesis by (simp add: content_def)
  next
    case False
    then show ?thesis
      unfolding content_def using py_join_explicit [OF False, of "[newline]"]
      by (simp add: newline_def)
  qed
  have "\<exists>fs1. split_ligand write_mae lf save_dir overwrite fs =
      (Inr (map (\<lambda>p. path_join dir (structure_label (fst p) (snd p) @ ascii ''.mae''))
              (enumerate 0 (structures lf))),
       fs1(path_join dir (ascii ''label.csv'') \<mapsto>
             py_join [newline] (map label_line (enumerate 0 (structures lf)))))"
    using assms dir_def by (rule split_ligand_returns)
  then obtain fs1 where "split_ligand write_mae lf save_dir overwrite fs =
      (Inr (map (\<lambda>p. path_join dir (structure_label (fst p) (snd p) @ ascii ''.mae''))
              (enumerate 0 (structures lf))),
       fs1(path_join dir (ascii ''label.csv'') \<mapsto>
             py_join [newline] (map label_line (enumerate 0 (structures lf)))))" ..
  then have r: "split_ligand write_mae lf save_dir overwrite fs =
      (Inr (map (\<lambda>p. path_join dir (structure_label (fst p) (snd p) @ ascii ''.mae''))
              (enumerate 0 sts)),
       fs1(path_join dir (ascii ''label.csv'') \<mapsto> content))"
    unfolding sts_def [symmetric] lines_eq content_eq .
  define fs' where "fs' = fs1(path_join dir (ascii ''label.csv'') \<mapsto> content)"
  have "map (\<lambda>l. path_join dir (l @ ascii ''.mae''))
          (map (\<lambda>p. structure_label (fst p) (snd p)) (enumerate 0 sts)) =
      map (\<lambda>p. path_join dir (structure_label (fst p) (snd p) @ ascii ''.mae'')) (enumerate 0 sts)"
    by (simp add: comp_def)
  then have paths: "map (\<lambda>l. path_join dir (l @ ascii ''.mae'')) labels =
      map (\<lambda>p. path_join dir (structure_label (fst p) (snd p) @ ascii ''.mae'')) (enumerate 0 sts)"
    unfolding labels_eq .
  have a: "split_ligand write_mae lf save_dir overwrite fs =
          (Inr (map (\<lambda>l. path_join dir (l @ ascii ''.mae'')) labels), fs')"
    unfolding paths fs'_def by (rule r)
  have b: "fs' (path_join dir (ascii ''label.csv'')) = Some content"
    unfolding fs'_def by simp
  have c: "distinct labels"
    unfolding labels_eq [symmetric] by (rule distinct_structure_labels)
  have d: "\<forall>i < length sts.
              foldl (\<lambda>a c. 10 * a + (c - 48)) 0 (py_str_nat i) = i
              \<and> (\<forall>c \<in> set (py_str_nat i). 48 \<le> c \<and> c \<le> 57)
              \<and> py_str_nat i \<noteq> []
              \<and> (hd (py_str_nat i) = 48 \<longrightarrow> i = 0 \<and> py_str_nat i = [48])"
  proof (intro allI impI conjI ballI)
    fix i
    show "foldl (\<lambda>a c. 10 * a + (c - 48)) 0 (py_str_nat i) = i" by (rule py_str_nat_value)
    show "py_str_nat i \<noteq> []" by (rule py_str_nat_nonempty)
    {
      assume "hd (py_str_nat i) = 48"
      then have z: "py_str_nat i = [48]" by (rule py_str_nat_hd_zero)
      then show "py_str_nat i = [48]" .
      have "foldl (\<lambda>a c. 10 * a + (c - 48)) 0 (py_str_nat i) = 0" unfolding z by simp
      then show "i = 0" unfolding py_str_nat_value .
    }
    fix c
    assume "c \<in> set (py_str_nat i)"
    then show "48 \<le> c" "c \<le> 57" using py_str_nat_digits [of c i] by simp_all
  qed
  have e: "(\<forall>st \<in> set sts. \<forall>c \<in> set (title st @ activity_value st).
                c \<notin> set [10, 11, 12, 13, 28, 29, 30, 133, 8232, 8233]) \<longrightarrow>
              splitlines content = lines
              \<and> length (splitlines content) = length sts
              \<and> length (filter (\<lambda>c. c = 10) content) = length sts - 1"
  proof
    assume plain: "\<forall>st \<in> set sts. \<forall>c \<in> set (title st @ activity_value st).
                c \<notin> set [10, 11, 12, 13, 28, 29, 30, 133, 8232, 8233]"
    have line: "l \<noteq> [] \<and> (\<forall>c \<in> set l. \<not> is_linebreak c)" if "l \<in> set lines" for l
    proof -
      from that obtain i where i: "i < length sts"
        and l: "l = py_str_nat i @ [45] @ title (sts ! i) @ [44] @ activity_value (sts ! i)"
        unfolding lines_def by auto
      have "sts ! i \<in> set sts" using i by simp
      with plain have p: "\<forall>c \<in> set (title (sts ! i) @ activity_value (sts ! i)). \<not> is_linebreak c"
        unfolding is_linebreak_def by blast
      have "\<forall>c \<in> set (py_str_nat i). \<not> is_linebreak c"
        using digit_not_linebreak by blast
      moreover have "\<not> is_linebreak 45" "\<not> is_linebreak 44" by (simp_all add: is_linebreak_def)
      ultimately show ?thesis using p unfolding l by auto
    qed
    then have "\<forall>x \<in> set lines. x \<noteq> [] \<and> (\<forall>c \<in> set x. \<not> is_linebreak c)" by blast
    then have "splitlines (py_join [newline] lines) = lines" by (rule splitlines_join)
    then have s: "splitlines content = lines" unfolding content_eq .
    have n: "length lines = length sts" unfolding lines_def by simp
    have k: "length (filter (\<lambda>c. c = 10) content) = length sts - 1"
    proof (cases "lines = []")
      case True
      then show ?thesis using n by (simp add: content_def)
    next
      case False
      have "\<forall>x \<in> set lines. (10::nat) \<notin> set x"
        using line by (auto simp: is_linebreak_def)
      with False have "length (filter (\<lambda>c. c = 10) (py_join [10] lines)) = length lines - 1"
        by (rule count_separators)
      then show ?thesis using content_eq n by (simp add: newline_def)
    qed
    show "splitlines content = lines
              \<and> length (splitlines content) = length sts
              \<and> length (filter (\<lambda>c. c = 10) content) = length sts - 1"
      using s n k by simp
  qed
  have final: "split_ligand write_mae lf save_dir overwrite fs =
          (Inr (map (\<lambda>l. path_join dir (l @ ascii ''.mae'')) labels), fs')
        \<and> fs' (path_join dir (ascii ''label.csv'')) = Some content
        \<and> distinct labels
        \<and> (\<forall>i < length sts.
              foldl (\<lambda>a c. 10 * a + (c - 48)) 0 (py_str_nat i) = i
              \<and> (\<forall>c \<in> set (py_str_nat i). 48 \<le> c \<and> c \<le> 57)
              \<and> py_str_nat i \<noteq> []
              \<and> (hd (py_str_nat i) = 48 \<longrightarrow> i = 0 \<and> py_str_nat i = [48]))
        \<and> ((\<forall>st \<in> set sts. \<forall>c \<in> set (title st @ activity_value st).
                c \<notin> set [10, 11, 12, 13, 28, 29, 30, 133, 8232, 8233]) \<longrightarrow>
              splitlines content = lines
              \<and> length (splitlines content) = length sts
              \<and> length (filter (\<lambda>c. c = 10) content) = length sts - 1)"
    by (intro conjI a b c d e)
  show ?thesis
    unfolding Let_def py_format_explicit [symmetric] activity_value_explicit [symmetric]
      dir_def [symmetric] sts_def [symmetric]
    by (intro exI [of _ fs']) (rule final [unfolded content_def lines_def labels_def title_def])
qed

subsection \<open>A library of three structures with the same title\<close>

definition st_dup1 :: structure_obj where
  "st_dup1 = \<lparr>property = [ascii ''s_m_title'' \<mapsto> VStr (ascii ''lig''),
                             ascii ''b_user_Activity'' \<mapsto> VBool True]\<rparr>"

definition st_dup2 :: structure_obj where
  "st_dup2 = \<lparr>property = [ascii ''s_m_title'' \<mapsto> VStr (ascii ''lig''),
                             ascii ''s_user_activity'' \<mapsto> VStr (ascii ''9''),
                             ascii ''s_user_Activity'' \<mapsto> VStr (ascii ''7'')]\<rparr>"

definition st_dup3 :: structure_obj where
  "st_dup3 = \<lparr>property = [ascii ''s_m_title'' \<mapsto> VStr (ascii ''lig'')]\<rparr>"

definition scenario_library :: ligand_file where
  "scenario_library =
     \<lparr>ligand_name = ascii ''library'', file_dir = ascii ''/w'', file_name = ascii ''library.mae'',
      structures = [st_dup1, st_dup2, st_dup3]\<rparr>"

definition scenario_write :: "structure_obj \<Rightarrow> pystr" where
  "scenario_write st = ascii ''mae''"

definition scenario_split_before :: filesystem where
  "scenario_split_before =
     [ascii ''/w/ligands/1-lig.mae'' \<mapsto> ascii ''old'',
      ascii ''/w/ligands/label.csv'' \<mapsto> ascii ''0-old,1'']"

definition scenario_split_after :: filesystem where
  "scenario_split_after =
     [ascii ''/w/ligands/1-lig.mae'' \<mapsto> ascii ''old'',
      ascii ''/w/ligands/0-lig.mae'' \<mapsto> ascii ''mae'',
      ascii ''/w/ligands/2-lig.mae'' \<mapsto> ascii ''mae'',
      ascii ''/w/ligands/label.csv'' \<mapsto>
        ascii ''0-lig,True'' @ [10] @ ascii ''1-lig,7'' @ [10] @ ascii ''2-lig,'']"

lemma scenario_titles:
  "property st_dup1 (ascii ''s_m_title'') = Some (VStr (ascii ''lig''))"
  "property st_dup2 (ascii ''s_m_title'') = Some (VStr (ascii ''lig''))"
  "property st_dup3 (ascii ''s_m_title'') = Some (VStr (ascii ''lig''))"
  by (simp_all add: st_dup1_def st_dup2_def st_dup3_def ascii_def)

lemma scenario_labels:
  "structure_label 0 st_dup1 = ascii ''0-lig''"
  "structure_label (Suc 0) st_dup2 = ascii ''1-lig''"
  "structure_label (Suc (Suc 0)) st_dup3 = ascii ''2-lig''"
  by (simp_all add: structure_label_def st_dup1_def st_dup2_def st_dup3_def py_format_def
      hyphen_def py_str_nat.simps [of 0] py_str_nat.simps [of "Suc 0"]
      py_str_nat.simps [of "Suc (Suc 0)"] ascii_def)

lemma scenario_activity:
  "activity_value st_dup1 = ascii ''True''"
  "activity_value st_dup2 = ascii ''7''"
  "activity_value st_dup3 = []"
  by (simp_all add: activity_value_def activity_label_name_def st_dup1_def st_dup2_def
      st_dup3_def py_format_def ascii_def)

lemma scenario_lines:
  "label_line (0, st_dup1) = ascii ''0-lig,True''"
  "label_line (Suc 0, st_dup2) = ascii ''1-lig,7''"
  "label_line (Suc (Suc 0), st_dup3) = ascii ''2-lig,''"
  using scenario_labels scenario_activity by (simp_all add: label_line_def ascii_def comma_def)

lemma scenario_split_paths:
  "path_join (ascii ''/w/ligands'') (structure_label 0 st_dup1 @ ascii ''.mae'') =
      ascii ''/w/ligands/0-lig.mae''"
  "path_join (ascii ''/w/ligands'') (structure_label (Suc 0) st_dup2 @ ascii ''.mae'') =
      ascii ''/w/ligands/1-lig.mae''"
  "path_join (ascii ''/w/ligands'') (structure_label (Suc (Suc 0)) st_dup3 @ ascii ''.mae'') =
      ascii ''/w/ligands/2-lig.mae''"
  "path_join (ascii ''/w/ligands'') (ascii ''label.csv'') = ascii ''/w/ligands/label.csv''"
  using scenario_labels by (simp_all add: path_join_def slash_def ascii_def)

lemma scenario_split_loop:
  "split_loop scenario_write (ascii ''/w/ligands'') False 0 [st_dup1, st_dup2, st_dup3] [] []
      scenario_split_before =
      (Inr ([ascii ''0-lig,True'', ascii ''1-lig,7'', ascii ''2-lig,''],
            [ascii ''/w/ligands/0-lig.mae'', ascii ''/w/ligands/1-lig.mae'',
             ascii ''/w/ligands/2-lig.mae'']),
       scenario_split_before(ascii ''/w/ligands/0-lig.mae'' \<mapsto> ascii ''mae'',
         ascii ''/w/ligands/2-lig.mae'' \<mapsto> ascii ''mae''))"
proof -
  have f: "scenario_split_before (ascii ''/w/ligands/0-lig.mae'') = None"
    "scenario_split_before (ascii ''/w/ligands/1-lig.mae'') = Some (ascii ''old'')"
    "scenario_split_before (ascii ''/w/ligands/2-lig.mae'') = None"
    by (simp_all add: scenario_split_before_def ascii_def)
  have ne: "ascii ''/w/ligands/1-lig.mae'' \<noteq> ascii ''/w/ligands/0-lig.mae''"
    "ascii ''/w/ligands/2-lig.mae'' \<noteq> ascii ''/w/ligands/0-lig.mae''"
    by (simp_all add: ascii_def)
  have s1: "split_loop scenario_write (ascii ''/w/ligands'') False 0 [st_dup1, st_dup2, st_dup3]
      [] [] scenario_split_before =
      split_loop scenario_write (ascii ''/w/ligands'') False (Suc 0) [st_dup2, st_dup3]
        [ascii ''0-lig,True''] [ascii ''/w/ligands/0-lig.mae'']
        (scenario_split_before(ascii ''/w/ligands/0-lig.mae'' \<mapsto> ascii ''mae''))"
    unfolding split_loop_step [OF scenario_titles(1)] scenario_lines scenario_split_paths
    by (simp add: f scenario_write_def del: split_loop.simps)
  have s2: "split_loop scenario_write (ascii ''/w/ligands'') False (Suc 0) [st_dup2, st_dup3]
        [ascii ''0-lig,True''] [ascii ''/w/ligands/0-lig.mae'']
        (scenario_split_before(ascii ''/w/ligands/0-lig.mae'' \<mapsto> ascii ''mae'')) =
      split_loop scenario_write (ascii ''/w/ligands'') False (Suc (Suc 0)) [st_dup3]
        [ascii ''0-lig,True'', ascii ''1-lig,7'']
        [ascii ''/w/ligands/0-lig.mae'', ascii ''/w/ligands/1-lig.mae'']
        (scenario_split_before(ascii ''/w/ligands/0-lig.mae'' \<mapsto> ascii ''mae''))"
    unfolding split_loop_step [OF scenario_titles(2)] scenario_lines scenario_split_paths
    by (simp add: f ne del: split_loop.simps)
  have s3: "split_loop scenario_write (ascii ''/w/ligands'') False (Suc (Suc 0)) [st_dup3]
        [ascii ''0-lig,True'', ascii ''1-lig,7'']
        [ascii ''/w/ligands/0-lig.mae'', ascii ''/w/ligands/1-lig.mae'']
        (scenario_split_before(ascii ''/w/ligands/0-lig.mae'' \<mapsto> ascii ''mae'')) =
      (Inr ([ascii ''0-lig,True'', ascii ''1-lig,7'', ascii ''2-lig,''],
            [ascii ''/w/ligands/0-lig.mae'', ascii ''/w/ligands/1-lig.mae'',
             ascii ''/w/ligands/2-lig.mae'']),
       scenario_split_before(ascii ''/w/ligands/0-lig.mae'' \<mapsto> ascii ''mae'',
         ascii ''/w/ligands/2-lig.mae'' \<mapsto> ascii ''mae''))"
    unfolding split_loop_step [OF scenario_titles(3)] scenario_lines scenario_split_paths
    by (simp add: f ne scenario_write_def)
  show ?thesis
    unfolding s1 s2 s3 ..
qed

lemma scenario_split:
  "split_ligand scenario_write scenario_library (Some (ascii ''/w/ligands'')) False
      scenario_split_before =
     (Inr [ascii ''/w/ligands/0-lig.mae'', ascii ''/w/ligands/1-lig.mae'',
           ascii ''/w/ligands/2-lig.mae''],
      scenario_split_after)"
proof -
  have j: "py_join [newline] [ascii ''0-lig,True'', ascii ''1-lig,7'', ascii ''2-lig,''] =
      ascii ''0-lig,True'' @ [10] @ ascii ''1-lig,7'' @ [10] @ ascii ''2-lig,''"
    by (simp add: newline_def)
  have loop: "split_loop scenario_write
      (case Some (ascii ''/w/ligands'') of None \<Rightarrow> file_dir scenario_library | Some d \<Rightarrow> d)
      False 0 (structures scenario_library) [] [] scenario_split_before =
      (Inr ([ascii ''0-lig,True'', ascii ''1-lig,7'', ascii ''2-lig,''],
            [ascii ''/w/ligands/0-lig.mae'', ascii ''/w/ligands/1-lig.mae'',
             ascii ''/w/ligands/2-lig.mae'']),
       scenario_split_before(ascii ''/w/ligands/0-lig.mae'' \<mapsto> ascii ''mae'',
         ascii ''/w/ligands/2-lig.mae'' \<mapsto> ascii ''mae''))"
    using scenario_split_loop by (simp add: scenario_library_def del: split_loop.simps)
  have fs: "(scenario_split_before(ascii ''/w/ligands/0-lig.mae'' \<mapsto> ascii ''mae'',
         ascii ''/w/ligands/2-lig.mae'' \<mapsto> ascii ''mae''))
        (ascii ''/w/ligands/label.csv'' \<mapsto>
          ascii ''0-lig,True'' @ [10] @ ascii ''1-lig,7'' @ [10] @ ascii ''2-lig,'') =
      scenario_split_after"
    unfolding scenario_split_before_def scenario_split_after_def
    by (rule ext) (simp add: ascii_def)
  show ?thesis
    unfolding split_ligand_of_loop [OF loop] option.case scenario_split_paths j fs ..
qed

lemma scenario_split_lines:
  "splitlines (ascii ''0-lig,True'' @ [10] @ ascii ''1-lig,7'' @ [10] @ ascii ''2-lig,'') =
     [ascii ''0-lig,True'', ascii ''1-lig,7'', ascii ''2-lig,'']"
  by (simp add: splitlines_def ascii_def is_linebreak_def)

lemma scenario_split_plain:
  "list_all (\<lambda>st. list_all (\<lambda>c. c \<notin> set [10, 11, 12, 13, 28, 29, 30, 133, 8232, 8233])
      ((case property st (ascii ''s_m_title'') of Some v \<Rightarrow> py_format v | None \<Rightarrow> [])
       @ activity_value st)) (structures scenario_library)"
  by (simp add: scenario_library_def st_dup1_def st_dup2_def st_dup3_def activity_value_def
      activity_label_name_def py_format_def ascii_def)

theorem split_ligand_labels_witness:
  "list_all (\<lambda>st. property st (ascii ''s_m_title'') \<noteq> None) (structures scenario_library)
   \<and> property st_dup1 (ascii ''s_m_title'') = property st_dup2 (ascii ''s_m_title'')
   \<and> property st_dup2 (ascii ''s_m_title'') = property st_dup3 (ascii ''s_m_title'')
   \<and> list_all (\<lambda>st. list_all (\<lambda>c. c \<notin> set [10, 11, 12, 13, 28, 29, 30, 133, 8232, 8233])
        ((case property st (ascii ''s_m_title'') of Some v \<Rightarrow> py_format v | None \<Rightarrow> [])
         @ activity_value st)) (structures scenario_library)
   \<and> scenario_split_before (ascii ''/w/ligands/label.csv'') = Some (ascii ''0-old,1'')
   \<and> split_ligand scenario_write scenario_library (Some (ascii ''/w/ligands'')) False
        scenario_split_before =
       (Inr [ascii ''/w/ligands/0-lig.mae'', ascii ''/w/ligands/1-lig.mae'',
             ascii ''/w/ligands/2-lig.mae''],
        scenario_split_after)
   \<and> scenario_split_after (ascii ''/w/ligands/label.csv'') =
       Some (ascii ''0-lig,True'' @ [10] @ ascii ''1-lig,7'' @ [10] @ ascii ''2-lig,'')
   \<and> splitlines (ascii ''0-lig,True'' @ [10] @ ascii ''1-lig,7'' @ [10] @ ascii ''2-lig,'') =
       [ascii ''0-lig,True'', ascii ''1-lig,7'', ascii ''2-lig,'']
   \<and> length (structures scenario_library) = 3
   \<and> distinct [ascii ''0-lig'', ascii ''1-lig'', ascii ''2-lig'']"
proof -
  have h: "\<forall>st \<in> set (structures scenario_library). property st (ascii ''s_m_title'') \<noteq> None"
    by (simp add: scenario_library_def scenario_titles)
  have la: "list_all (\<lambda>st. property st (ascii ''s_m_title'') \<noteq> None) (structures scenario_library)"
    using h by (simp add: list_all_iff)
  have same: "property st_dup1 (ascii ''s_m_title'') = property st_dup2 (ascii ''s_m_title'')"
    "property st_dup2 (ascii ''s_m_title'') = property st_dup3 (ascii ''s_m_title'')"
    by (simp_all add: scenario_titles)
  have before: "scenario_split_before (ascii ''/w/ligands/label.csv'') = Some (ascii ''0-old,1'')"
    by (simp add: scenario_split_before_def)
  have after: "scenario_split_after (ascii ''/w/ligands/label.csv'') =
       Some (ascii ''0-lig,True'' @ [10] @ ascii ''1-lig,7'' @ [10] @ ascii ''2-lig,'')"
    by (simp add: scenario_split_after_def)
  have n: "length (structures scenario_library) = 3"
    by (simp add: scenario_library_def)
  have "\<exists>fs' :: filesystem. distinct (map (\<lambda>i. py_str_nat i @ [45] @
        (case property (structures scenario_library ! i) (ascii ''s_m_title'') of
           Some v \<Rightarrow> py_format v | None \<Rightarrow> []))
      [0..<length (structures scenario_library)])"
    using split_ligand_labels [OF h, where write_mae = scenario_write
        and save_dir = "Some (ascii ''/w/ligands'')" and overwrite = False
        and fs = scenario_split_before]
    unfolding Let_def py_format_explicit [symmetric]
    by (elim exE conjE) (intro exI)
  then have "distinct (map (\<lambda>i. py_str_nat i @ [45] @
        (case property (structures scenario_library ! i) (ascii ''s_m_title'') of
           Some v \<Rightarrow> py_format v | None \<Rightarrow> []))
      [0..<length (structures scenario_library)])"
    by simp
  then have "distinct (map (\<lambda>i. structure_label i (structures scenario_library ! i))
      [0..<length (structures scenario_library)])"
    unfolding structure_label_explicit .
  then have "distinct [structure_label 0 st_dup1, structure_label (Suc 0) st_dup2,
      structure_label (Suc (Suc 0)) st_dup3]"
    unfolding n by (simp add: scenario_library_def upt_rec numeral_3_eq_3)
  then have dist: "distinct [ascii ''0-lig'', ascii ''1-lig'', ascii ''2-lig'']"
    unfolding scenario_labels .
  show ?thesis
    by (intro conjI la same scenario_split_plain before scenario_split after
        scenario_split_lines n dist)
qed

subsection \<open>A title of two lines, and a structure without a title\<close>

definition st_two_lines :: structure_obj where
  "st_two_lines = \<lparr>property = [ascii ''s_m_title'' \<mapsto> VStr (ascii ''a'' @ [10] @ ascii ''b'')]\<rparr>"

definition st_untitled :: structure_obj where
  "st_untitled = \<lparr>property = [ascii ''s_user_Activity'' \<mapsto> VStr (ascii ''5'')]\<rparr>"

definition two_lines_library :: ligand_file where
  "two_lines_library =
     \<lparr>ligand_name = ascii ''library'', file_dir = ascii ''/w'', file_name = ascii ''library.mae'',
      structures = [st_two_lines]\<rparr>"

definition untitled_library :: ligand_file where
  "untitled_library =
     \<lparr>ligand_name = ascii ''library'', file_dir = ascii ''/w'', file_name = ascii ''library.mae'',
      structures = [st_dup1, st_untitled]\<rparr>"

lemma two_lines_split:
  "split_ligand scenario_write two_lines_library (Some (ascii ''/w/ligands'')) False Map.empty =
     (Inr [ascii ''/w/ligands/0-a'' @ [10] @ ascii ''b.mae''],
      [ascii ''/w/ligands/0-a'' @ [10] @ ascii ''b.mae'' \<mapsto> ascii ''mae'',
       ascii ''/w/ligands/label.csv'' \<mapsto> ascii ''0-a'' @ [10] @ ascii ''b,''])"
proof -
  have t: "property st_two_lines (ascii ''s_m_title'') = Some (VStr (ascii ''a'' @ [10] @ ascii ''b''))"
    by (simp add: st_two_lines_def)
  have l: "structure_label 0 st_two_lines = ascii ''0-a'' @ [10] @ ascii ''b''"
    by (simp add: structure_label_def st_two_lines_def py_format_def hyphen_def
        py_str_nat.simps [of 0] ascii_def)
  have a: "activity_value st_two_lines = []"
    by (simp add: activity_value_def activity_label_name_def st_two_lines_def py_format_def
        ascii_def)
  have ll: "label_line (0, st_two_lines) = ascii ''0-a'' @ [10] @ ascii ''b,''"
    by (simp add: label_line_def l a comma_def ascii_def)
  have p: "path_join (ascii ''/w/ligands'') (structure_label 0 st_two_lines @ ascii ''.mae'') =
      ascii ''/w/ligands/0-a'' @ [10] @ ascii ''b.mae''"
    "path_join (ascii ''/w/ligands'') (ascii ''label.csv'') = ascii ''/w/ligands/label.csv''"
    by (simp_all add: l path_join_def slash_def ascii_def)
  have loop: "split_loop scenario_write
      (case Some (ascii ''/w/ligands'') of None \<Rightarrow> file_dir two_lines_library | Some d \<Rightarrow> d)
      False 0 (structures two_lines_library) [] [] Map.empty =
      (Inr ([ascii ''0-a'' @ [10] @ ascii ''b,''],
            [ascii ''/w/ligands/0-a'' @ [10] @ ascii ''b.mae'']),
       [ascii ''/w/ligands/0-a'' @ [10] @ ascii ''b.mae'' \<mapsto> ascii ''mae''])"
    unfolding two_lines_library_def option.case
    by (simp add: split_loop_step [OF t] ll p scenario_write_def del: split_loop.simps(2))
  show ?thesis
    unfolding split_ligand_of_loop [OF loop] option.case p by simp
qed

lemma untitled_split:
  "split_ligand scenario_write untitled_library (Some (ascii ''/w/ligands'')) False Map.empty =
     (Inl (KeyError ''s_m_title''), [ascii ''/w/ligands/0-lig.mae'' \<mapsto> ascii ''mae''])"
proof -
  have u: "property st_untitled (ascii ''s_m_title'') = None"
    by (simp add: st_untitled_def ascii_def)
  have loop: "split_loop scenario_write (ascii ''/w/ligands'') False 0 [st_dup1, st_untitled]
      [] [] Map.empty =
      (Inl (KeyError ''s_m_title''), [ascii ''/w/ligands/0-lig.mae'' \<mapsto> ascii ''mae''])"
    unfolding split_loop_step [OF scenario_titles(1)] scenario_lines scenario_split_paths
    by (simp add: u scenario_write_def)
  show ?thesis
    unfolding split_ligand_def Let_def option.case
    by (simp add: untitled_library_def loop del: split_loop.simps)
qed

theorem split_ligand_labels_counterexample:
  "length (structures two_lines_library) = 1
   \<and> split_ligand scenario_write two_lines_library (Some (ascii ''/w/ligands'')) False Map.empty =
       (Inr [ascii ''/w/ligands/0-a'' @ [10] @ ascii ''b.mae''],
        [ascii ''/w/ligands/0-a'' @ [10] @ ascii ''b.mae'' \<mapsto> ascii ''mae'',
         ascii ''/w/ligands/label.csv'' \<mapsto> ascii ''0-a'' @ [10] @ ascii ''b,''])
   \<and> splitlines (ascii ''0-a'' @ [10] @ ascii ''b,'') = [ascii ''0-a'', ascii ''b,'']
   \<and> split_ligand scenario_write untitled_library (Some (ascii ''/w/ligands'')) False Map.empty =
       (Inl (KeyError ''s_m_title''), [ascii ''/w/ligands/0-lig.mae'' \<mapsto> ascii ''mae''])"
proof -
  have n: "length (structures two_lines_library) = 1"
    by (simp add: two_lines_library_def)
  have s: "splitlines (ascii ''0-a'' @ [10] @ ascii ''b,'') = [ascii ''0-a'', ascii ''b,'']"
    by (simp add: splitlines_def ascii_def is_linebreak_def)
  show ?thesis
    by (intro conjI n two_lines_split s untitled_split)
qed

section \<open>The parallel task runner: \<open>multiprocssing_run\<close> and \<open>_func_timeout\<close>\<close>

text \<open>
  What the operation does on an item when left alone is its behaviour: it returns a
  result or raises an exception after some seconds, or it never finishes.
  \<open>_func_timeout\<close> arms an alarm of \<open>timeout\<close> seconds (none for 0) whose handler
  raises \<open>TimeoutError\<close> inside the operation; \<open>None\<close> stands for a call that does not
  return. The pool is taken by the contract of \<open>multiprocessing.Pool\<close>: the constructor
  refuses fewer than one process, every submitted task ends in one call of
  \<open>callback\<close> (with the result) or of \<open>error_callback\<close> (with the exception), the
  calls come one after the other in the order in which the tasks complete (the parameter
  \<open>order\<close>, a rearrangement of the submitted tasks), and \<open>join\<close> returns once every
  task has completed. The batch holds the list \<open>returns\<close>, the count the progress bar
  was advanced by, and the exceptions logged at debug level.
\<close>

datatype 'e exc = TimeoutError | Raised 'e

datatype ('r, 'e) behaviour = Returns nat 'r | Fails nat "'e exc" | Never

definition func_timeout :: "('a \<Rightarrow> ('r, 'e) behaviour) \<Rightarrow> 'a \<Rightarrow> nat \<Rightarrow> ('e exc + 'r) option" where
  "func_timeout func item timeout =
     (case func item of
        Returns d result \<Rightarrow>
          if timeout \<noteq> 0 \<and> timeout \<le> d then Some (Inl TimeoutError) else Some (Inr result)
      | Fails d e \<Rightarrow>
          if timeout \<noteq> 0 \<and> timeout \<le> d then Some (Inl TimeoutError) else Some (Inl e)
      | Never \<Rightarrow>
          if timeout \<noteq> 0 then Some (Inl TimeoutError) else None)"

record ('r, 'e) batch =
  returns :: "'r list"
  completed :: nat
  debug_log :: "'e exc list"

definition success_handler :: "'r \<Rightarrow> ('r, 'e) batch \<Rightarrow> ('r, 'e) batch" where
  "success_handler result b = b\<lparr>returns := returns b @ [result], completed := completed b + 1\<rparr>"

definition error_handler :: "'e exc \<Rightarrow> ('r, 'e) batch \<Rightarrow> ('r, 'e) batch" where
  "error_handler exception b =
     b\<lparr>debug_log := debug_log b @ [exception], completed := completed b + 1\<rparr>"

fun handle_results :: "('e exc + 'r) list \<Rightarrow> ('r, 'e) batch \<Rightarrow> ('r, 'e) batch" where
  "handle_results [] b = b"
| "handle_results (Inr result # rest) b = handle_results rest (success_handler result b)"
| "handle_results (Inl exception # rest) b = handle_results rest (error_handler exception b)"

fun pool_join :: "'x option list \<Rightarrow> 'x list option" where
  "pool_join [] = Some []"
| "pool_join (None # tasks) = None"
| "pool_join (Some x # tasks) =
     (case pool_join tasks of None \<Rightarrow> None | Some xs \<Rightarrow> Some (x # xs))"

definition multiprocssing_run ::
  "(('e exc + 'r) list \<Rightarrow> ('e exc + 'r) list) \<Rightarrow> ('a \<Rightarrow> ('r, 'e) behaviour) \<Rightarrow> 'a list \<Rightarrow>
   int \<Rightarrow> nat option \<Rightarrow> (error + ('r, 'e) batch) option"
where
  "multiprocssing_run order func iterable num_parallel timeout =
     (let timeout' = (case timeout of None \<Rightarrow> 0 | Some t \<Rightarrow> t)
      in if num_parallel < 1 then Some (Inl ValueError)
         else (case pool_join (map (\<lambda>item. func_timeout func item timeout') iterable) of
                 None \<Rightarrow> None
               | Some outcomes \<Rightarrow>
                   Some (Inr (handle_results (order outcomes)
                                \<lparr>returns = [], completed = 0, debug_log = []\<rparr>))))"

text \<open>
  An item is dropped when its operation raises, never finishes, or needs at least the
  limit (when there is one); the kept results are the results of the other items.
\<close>

definition dropped :: "('a \<Rightarrow> ('r, 'e) behaviour) \<Rightarrow> nat \<Rightarrow> 'a \<Rightarrow> bool" where
  "dropped func limit item =
     (case func item of
        Returns d result \<Rightarrow> limit \<noteq> 0 \<and> limit \<le> d
      | Fails d e \<Rightarrow> True
      | Never \<Rightarrow> True)"

definition kept_results :: "('a \<Rightarrow> ('r, 'e) behaviour) \<Rightarrow> nat \<Rightarrow> 'a list \<Rightarrow> 'r list" where
  "kept_results func limit items =
     concat (map (\<lambda>item. case func item of
                             Returns d result \<Rightarrow> if dropped func limit item then [] else [result]
                           | _ \<Rightarrow> []) items)"

definition successes :: "('e exc + 'r) list \<Rightarrow> 'r list" where
  "successes xs = concat (map (\<lambda>x. case x of Inl e \<Rightarrow> [] | Inr r \<Rightarrow> [r]) xs)"

definition failures :: "('e exc + 'r) list \<Rightarrow> 'e exc list" where
  "failures xs = concat (map (\<lambda>x. case x of Inl e \<Rightarrow> [e] | Inr r \<Rightarrow> []) xs)"

lemma handle_results_batch:
  "handle_results xs b =
     \<lparr>returns = returns b @ successes xs, completed = completed b + length xs,
      debug_log = debug_log b @ failures xs\<rparr>"
proof (induction xs arbitrary: b)
  case Nil
  show ?case by (simp add: successes_def failures_def)
next
  case (Cons x xs)
  show ?case
    by (cases x) (simp_all add: Cons.IH success_handler_def error_handler_def successes_def failures_def)
qed

lemma successes_failures_length: "length (successes xs) + length (failures xs) = length xs"
  by (induction xs) (auto simp: successes_def failures_def split: sum.splits)

lemma mset_successes: "mset xs = mset ys \<Longrightarrow> mset (successes xs) = mset (successes ys)"
proof -
  assume e: "mset xs = mset ys"
  have m: "\<And>zs. mset (successes zs) =
      (\<Sum>x \<in># mset zs. mset (case x of Inl e \<Rightarrow> [] | Inr r \<Rightarrow> [r]))"
    unfolding successes_def by (induct_tac zs) simp_all
  show ?thesis unfolding m e ..
qed

lemma length_failures_mset: "mset xs = mset ys \<Longrightarrow> length (failures xs) = length (failures ys)"
proof -
  assume e: "mset xs = mset ys"
  have "length (successes xs) = length (successes ys)"
    using mset_successes [OF e] by (metis size_mset)
  moreover have "length xs = length ys" using e by (metis size_mset)
  ultimately show ?thesis
    using successes_failures_length [of xs] successes_failures_length [of ys] by simp
qed

definition outcome :: "('a \<Rightarrow> ('r, 'e) behaviour) \<Rightarrow> nat \<Rightarrow> 'a \<Rightarrow> 'e exc + 'r" where
  "outcome func limit item =
     (case func item of
        Returns d result \<Rightarrow> if limit \<noteq> 0 \<and> limit \<le> d then Inl TimeoutError else Inr result
      | Fails d e \<Rightarrow> if limit \<noteq> 0 \<and> limit \<le> d then Inl TimeoutError else Inl e
      | Never \<Rightarrow> Inl TimeoutError)"

lemma func_timeout_outcome:
  "limit \<noteq> 0 \<or> func item \<noteq> Never \<Longrightarrow>
     func_timeout func item limit = Some (outcome func limit item)"
  by (cases "func item") (auto simp: func_timeout_def outcome_def)

lemma pool_join_outcomes:
  "limit \<noteq> 0 \<or> (\<forall>item \<in> set items. func item \<noteq> Never) \<Longrightarrow>
     pool_join (map (\<lambda>item. func_timeout func item limit) items) =
       Some (map (outcome func limit) items)"
proof (induction items)
  case Nil
  show ?case by simp
next
  case (Cons item items)
  have "func_timeout func item limit = Some (outcome func limit item)"
    using Cons.prems by (intro func_timeout_outcome) auto
  moreover have "pool_join (map (\<lambda>item. func_timeout func item limit) items) =
       Some (map (outcome func limit) items)"
    using Cons.prems by (intro Cons.IH) auto
  ultimately show ?case by simp
qed

lemma successes_Cons:
  "successes (x # xs) = (case x of Inl e \<Rightarrow> [] | Inr r \<Rightarrow> [r]) @ successes xs"
  by (simp add: successes_def)

lemma failures_Cons:
  "failures (x # xs) = (case x of Inl e \<Rightarrow> [e] | Inr r \<Rightarrow> []) @ failures xs"
  by (simp add: failures_def)

lemma kept_results_Cons:
  "kept_results func limit (item # items) =
     (case func item of
        Returns d result \<Rightarrow> if dropped func limit item then [] else [result]
      | _ \<Rightarrow> []) @ kept_results func limit items"
  by (simp add: kept_results_def)

lemma outcome_success:
  "(case outcome func limit item of Inl e \<Rightarrow> [] | Inr r \<Rightarrow> [r]) =
     (case func item of
        Returns d result \<Rightarrow> if dropped func limit item then [] else [result]
      | _ \<Rightarrow> [])"
  by (cases "func item") (simp_all add: outcome_def dropped_def)

lemma outcome_failure:
  "length (case outcome func limit item of Inl e \<Rightarrow> [e] | Inr r \<Rightarrow> []) =
     (if dropped func limit item then 1 else 0)"
  by (cases "func item") (simp_all add: outcome_def dropped_def)

lemma successes_outcomes:
  "successes (map (outcome func limit) items) = kept_results func limit items"
proof (induction items)
  case Nil
  show ?case by (simp add: successes_def kept_results_def)
next
  case (Cons item items)
  show ?case
    by (simp add: successes_Cons kept_results_Cons Cons.IH outcome_success)
qed

lemma failures_outcomes:
  "length (failures (map (outcome func limit) items)) = length (filter (dropped func limit) items)"
proof (induction items)
  case Nil
  show ?case by (simp add: failures_def)
next
  case (Cons item items)
  show ?case
    by (simp add: failures_Cons Cons.IH outcome_failure)
qed

text \<open>
  C6. With at least one worker, and either a positive per-item timeout or operations that
  all finish on their own, the runner returns; the returned list holds exactly the
  results of the items that are not dropped (in completion order), so it has the number
  of items minus the number of dropped items entries; every item, dropped or not,
  advances the completed count by one, and every dropped item leaves one entry in the
  debug log instead of an exception for the caller.
\<close>

theorem runner_drops_failed_items:
  assumes "rearranges order"
    and "1 \<le> num_parallel"
    and "limit = (case timeout of None \<Rightarrow> 0 | Some t \<Rightarrow> t)"
    and "limit \<noteq> 0 \<or> list_all (\<lambda>item. func item \<noteq> Never) items"
  shows "\<exists>b. multiprocssing_run order func items num_parallel timeout = Some (Inr b)
      \<and> length (returns b) = length items - length (filter (dropped func limit) items)
      \<and> mset (returns b) = mset (kept_results func limit items)
      \<and> completed b = length items
      \<and> length (debug_log b) = length (filter (dropped func limit) items)"
proof -
  define outcomes where "outcomes = map (outcome func limit) items"
  define b where
    "b = \<lparr>returns = successes (order outcomes), completed = length (order outcomes),
          debug_log = failures (order outcomes)\<rparr>"
  have perm: "mset (order outcomes) = mset outcomes"
    using assms(1) by (simp add: rearranges_def)
  have len: "length (order outcomes) = length items"
    using perm unfolding outcomes_def by (metis size_mset length_map)
  have join: "pool_join (map (\<lambda>item. func_timeout func item limit) items) = Some outcomes"
    unfolding outcomes_def using assms(4) by (intro pool_join_outcomes) (simp add: list_all_iff)
  have run: "multiprocssing_run order func items num_parallel timeout = Some (Inr b)"
    using assms(2) join
    by (simp add: multiprocssing_run_def assms(3) [symmetric] handle_results_batch b_def)
  have fails: "length (debug_log b) = length (filter (dropped func limit) items)"
    using length_failures_mset [OF perm] by (simp add: b_def outcomes_def failures_outcomes)
  have kept: "mset (returns b) = mset (kept_results func limit items)"
    using mset_successes [OF perm] by (simp add: b_def outcomes_def successes_outcomes)
  have count: "length (returns b) = length items - length (filter (dropped func limit) items)"
    using successes_failures_length [of "order outcomes"] len fails by (simp add: b_def)
  have finished: "completed b = length items"
    using len by (simp add: b_def)
  show ?thesis
    by (intro exI [of _ b] conjI run count kept finished fails)
qed

definition scenario_func :: "nat \<Rightarrow> (nat, string) behaviour" where
  "scenario_func item =
     (if item = 1 then Returns 1 10
      else if item = 2 then Fails 1 (Raised ''dock failed'')
      else if item = 3 then Returns 100 30
      else Never)"

lemma scenario_batch:
  "multiprocssing_run rev scenario_func [1, 2, 3, 4] 2 (Some 5) =
     Some (Inr \<lparr>returns = [10], completed = 4,
                debug_log = [TimeoutError, TimeoutError, Raised ''dock failed'']\<rparr>)"
  by (simp add: multiprocssing_run_def func_timeout_def scenario_func_def
      success_handler_def error_handler_def)

lemma scenario_batch_no_timeout:
  "multiprocssing_run rev scenario_func [1, 2] 2 None =
     Some (Inr \<lparr>returns = [10], completed = 2, debug_log = [Raised ''dock failed'']\<rparr>)"
  by (simp add: multiprocssing_run_def func_timeout_def scenario_func_def
      success_handler_def error_handler_def)

theorem runner_drops_failed_items_witness:
  "rearranges (rev :: (string exc + nat) list \<Rightarrow> (string exc + nat) list)
   \<and> (1 :: int) \<le> 2
   \<and> (5 :: nat) \<noteq> 0
   \<and> multiprocssing_run rev scenario_func [1, 2, 3, 4] 2 (Some 5) =
       Some (Inr \<lparr>returns = [10], completed = 4,
                  debug_log = [TimeoutError, TimeoutError, Raised ''dock failed'']\<rparr>)
   \<and> filter (dropped scenario_func 5) [1, 2, 3, 4] = [2, 3, 4]
   \<and> kept_results scenario_func 5 [1, 2, 3, 4] = [10]
   \<and> list_all (\<lambda>item. scenario_func item \<noteq> Never) [1, 2]
   \<and> multiprocssing_run rev scenario_func [1, 2] 2 None =
       Some (Inr \<lparr>returns = [10], completed = 2, debug_log = [Raised ''dock failed'']\<rparr>)
   \<and> filter (dropped scenario_func 0) [1, 2] = [2]"
proof -
  have r: "rearranges (rev :: (string exc + nat) list \<Rightarrow> (string exc + nat) list)"
    by (simp add: rearranges_def)
  have n: "(1 :: int) \<le> 2" by simp
  have l: "(5 :: nat) = (case Some 5 of None \<Rightarrow> 0 | Some t \<Rightarrow> t)" by simp
  have h: "(5 :: nat) \<noteq> 0 \<or> list_all (\<lambda>item. scenario_func item \<noteq> Never) [1, 2, 3, 4]"
    by simp
  have l0: "(0 :: nat) = (case None of None \<Rightarrow> 0 | Some t \<Rightarrow> t)" by simp
  have a: "list_all (\<lambda>item. scenario_func item \<noteq> Never) [1, 2]"
    by (simp add: scenario_func_def)
  then have h0: "(0 :: nat) \<noteq> 0 \<or> list_all (\<lambda>item. scenario_func item \<noteq> Never) [1, 2]"
    by simp
  have d: "filter (dropped scenario_func 5) [1, 2, 3, 4] = [2, 3, 4]"
    and k: "kept_results scenario_func 5 [1, 2, 3, 4] = [10]"
    and d0: "filter (dropped scenario_func 0) [1, 2] = [2]"
    by (simp_all add: dropped_def kept_results_def scenario_func_def)
  have five: "(5 :: nat) \<noteq> 0"
    using runner_drops_failed_items [OF r n l h] runner_drops_failed_items [OF r n l0 h0]
    by simp
  show ?thesis
    by (intro conjI r n five scenario_batch d k a scenario_batch_no_timeout d0)
qed

end
